theory Spec2Isabelle
  imports Main "HOL-Library.Sublist"
begin

section \<open>JavaScript values and strings\<close>

text \<open>
  Strings are byte strings (UTF-8); a character outside ASCII is written as its bytes.
  A JavaScript number is kept as the decimal text that string conversion prints for it
  (\<open>98.6\<close>, \<open>0\<close>, \<open>NaN\<close>): the handlers only interpolate numbers and test them for
  truthiness, and a number is falsy exactly when it prints as \<open>0\<close> or \<open>NaN\<close>.
\<close>

type_synonym number = string

text \<open>
  Values that reach the code untyped: a JSON request body, the value a promise of the
  mail-sending collaborator fulfils with, the reason it rejects with, a thrown exception.
  \<open>JError m\<close> is an instance of \<open>Error\<close> (or of a subclass) whose message is \<open>m\<close>.
  An object lists each of its members once.
\<close>

datatype jsval =
    JUndefined
  | JNull
  | JBool bool
  | JNum number
  | JStr string
  | JArr "jsval list"
  | JObj "(string \<times> jsval) list"
  | JError string

definition number_truthy :: "number \<Rightarrow> bool" where
  "number_truthy n \<longleftrightarrow> n \<noteq> ''0'' \<and> n \<noteq> ''NaN''"

fun truthy :: "jsval \<Rightarrow> bool" where
  "truthy JUndefined = False"
| "truthy JNull = False"
| "truthy (JBool b) = b"
| "truthy (JNum n) = number_truthy n"
| "truthy (JStr s) = (s \<noteq> [])"
| "truthy (JArr xs) = True"
| "truthy (JObj kvs) = True"
| "truthy (JError m) = True"

text \<open>
  The \<open>TypeError\<close> of Node.js for a property read on \<open>undefined\<close> or \<open>null\<close>.
\<close>

definition type_error_reading :: "string \<Rightarrow> string \<Rightarrow> jsval" where
  "type_error_reading what prop =
     JError (''Cannot read properties of '' @ what @ '' (reading '' @ [CHR 0x27] @ prop @ [CHR 0x27] @ '')'')"

text \<open>
  \<open>v.prop\<close> for the two property names the code reads on untyped values, \<open>error\<close> and
  \<open>message\<close>: a thrown \<open>TypeError\<close> on \<open>undefined\<close> and \<open>null\<close>, the own property of
  an object, the message of an \<open>Error\<close>, and \<open>undefined\<close> on everything else.
\<close>

fun get_prop :: "jsval \<Rightarrow> string \<Rightarrow> jsval + jsval" where
  "get_prop JUndefined p = Inl (type_error_reading ''undefined'' p)"
| "get_prop JNull p = Inl (type_error_reading ''null'' p)"
| "get_prop (JObj kvs) p = Inr (case map_of kvs p of Some v \<Rightarrow> v | None \<Rightarrow> JUndefined)"
| "get_prop (JError m) p = Inr (if p = ''message'' then JStr m else JUndefined)"
| "get_prop v p = Inr JUndefined"

text \<open>\<open>s.includes(t)\<close>: \<open>t\<close> occurs in \<open>s\<close> as a contiguous substring.\<close>

fun str_includes :: "string \<Rightarrow> string \<Rightarrow> bool" where
  "str_includes [] t = (t = [])"
| "str_includes (c # cs) t = (prefix t (c # cs) \<or> str_includes cs t)"

text \<open>\<open>xs.join(sep)\<close> on an array of strings.\<close>

fun join :: "string \<Rightarrow> string list \<Rightarrow> string" where
  "join sep [] = []"
| "join sep [x] = x"
| "join sep (x # y # ys) = x @ sep @ join sep (y # ys)"

text \<open>
  \<open>s.trim()\<close> removes the white space and the line terminators of JavaScript at both
  ends of the string. \<open>white_space\<close> lists them as their UTF-8 bytes: tab, line feed,
  vertical tab, form feed, carriage return and space, then U+00A0, U+1680, U+2000 to
  U+200A, U+2028, U+2029, U+202F, U+205F, U+3000 and U+FEFF.
\<close>

definition white_space :: "string list" where
  "white_space =
     [[CHR 0x09], [CHR 0x0A], [CHR 0x0B], [CHR 0x0C], [CHR 0x0D], [CHR 0x20],
      [CHR 0xC2, CHR 0xA0],
      [CHR 0xE1, CHR 0x9A, CHR 0x80],
      [CHR 0xE2, CHR 0x80, CHR 0x80], [CHR 0xE2, CHR 0x80, CHR 0x81], [CHR 0xE2, CHR 0x80, CHR 0x82],
      [CHR 0xE2, CHR 0x80, CHR 0x83], [CHR 0xE2, CHR 0x80, CHR 0x84], [CHR 0xE2, CHR 0x80, CHR 0x85],
      [CHR 0xE2, CHR 0x80, CHR 0x86], [CHR 0xE2, CHR 0x80, CHR 0x87], [CHR 0xE2, CHR 0x80, CHR 0x88],
      [CHR 0xE2, CHR 0x80, CHR 0x89], [CHR 0xE2, CHR 0x80, CHR 0x8A],
      [CHR 0xE2, CHR 0x80, CHR 0xA8], [CHR 0xE2, CHR 0x80, CHR 0xA9], [CHR 0xE2, CHR 0x80, CHR 0xAF],
      [CHR 0xE2, CHR 0x81, CHR 0x9F],
      [CHR 0xE3, CHR 0x80, CHR 0x80],
      [CHR 0xEF, CHR 0xBB, CHR 0xBF]]"

text \<open>
  \<open>strip_front ws s\<close> takes characters of \<open>ws\<close> off the front of \<open>s\<close> as long as
  there is one.
\<close>

function strip_front :: "string list \<Rightarrow> string \<Rightarrow> string" where
  "strip_front ws s =
     (case find (\<lambda>w. w \<noteq> [] \<and> prefix w s) ws of
        None \<Rightarrow> s
      | Some w \<Rightarrow> strip_front ws (drop (length w) s))"
  by pat_completeness auto
termination
proof (relation "measure (\<lambda>(ws, s). length s)")
  show "wf (measure (\<lambda>(ws, s). length s))"
    by simp
next
  fix ws :: "string list" and s w :: string
  assume found: "find (\<lambda>w. w \<noteq> [] \<and> prefix w s) ws = Some w"
  have "find P xs = Some x \<Longrightarrow> P x" for P :: "string \<Rightarrow> bool" and xs x
    by (induction xs) (auto split: if_splits)
  from this [OF found] have "w \<noteq> []" "prefix w s"
    by simp_all
  then have "0 < length w" "length w \<le> length s"
    by (auto simp: prefix_length_le)
  then have "length s - length w < length s"
    by arith
  then show "((ws, drop (length w) s), (ws, s)) \<in> measure (\<lambda>(ws, s). length s)"
    by simp
qed

declare strip_front.simps [simp del]

definition trimStart :: "string \<Rightarrow> string" where
  "trimStart s = strip_front white_space s"

definition trimEnd :: "string \<Rightarrow> string" where
  "trimEnd s = rev (strip_front (map rev white_space) (rev s))"

definition trim :: "string \<Rightarrow> string" where
  "trim s = trimEnd (trimStart s)"

text \<open>
  Template interpolation \<open>${x}\<close> of a string-typed document path: an unset path reads
  \<open>undefined\<close> and prints as that word.
\<close>

definition interp :: "string option \<Rightarrow> string" where
  "interp x = (case x of None \<Rightarrow> ''undefined'' | Some s \<Rightarrow> s)"

text \<open>\<open>x || d\<close> for a string-typed path \<open>x\<close>: unset and empty are falsy.\<close>

definition str_or :: "string option \<Rightarrow> string \<Rightarrow> string" where
  "str_or x d = (case x of None \<Rightarrow> d | Some s \<Rightarrow> if s \<noteq> [] then s else d)"

text \<open>\<open>x || d\<close> for a number-typed path \<open>x\<close>: unset, zero and NaN are falsy.\<close>

definition num_or :: "number option \<Rightarrow> string \<Rightarrow> string" where
  "num_or x d = (case x of None \<Rightarrow> d | Some n \<Rightarrow> if number_truthy n then n else d)"

text \<open>\<open>xs?.join(sep) || d\<close> for an array-typed path \<open>xs\<close> that may be unset.\<close>

definition join_or :: "string list option \<Rightarrow> string \<Rightarrow> string \<Rightarrow> string" where
  "join_or xs sep d = (case xs of None \<Rightarrow> d | Some ys \<Rightarrow> if join sep ys \<noteq> [] then join sep ys else d)"

section \<open>Documents of the record store\<close>

text \<open>
  A document is a record of its paths. A string- or number-typed path that is unset reads
  \<open>undefined\<close> (\<open>None\<close>). An array-typed path the code guards with \<open>?.\<close> may be
  unset; \<open>timing\<close>, which the code reads unguarded, and the result of a \<open>find\<close> query
  are arrays. A field name shared by several documents is prefixed with the document's name
  (\<open>user_name\<close> for \<open>req.user.name\<close>, \<open>contact_id\<close> for the text of \<open>_id\<close>).
\<close>

record user =
  user_name :: "string option"
  user_email :: "string option"

record profile =
  blood_group :: "string option"
  age :: "number option"
  gender :: "string option"
  allergies :: "string list option"
  existing_conditions :: "string list option"
  family_doctor_email :: "string list option"

record medication =
  medicine_name :: "string option"
  dosage :: "string option"
  frequency :: "string option"
  timing :: "string list"
  stock_count :: "number option"

record vital =
  bp_systolic :: "number option"
  bp_diastolic :: "number option"
  sugar :: "number option"
  temperature :: "number option"
  weight :: "number option"
  timestamp :: int

record contact =
  contact_id :: "string option"
  contact_name :: "string option"
  relation :: "string option"
  phone :: "string option"
  contact_email :: "string option"

record family =
  family_name :: "string option"
  emergency_contacts :: "contact list option"

text \<open>The outcome of the awaited record-store queries of a handler: all resolved, or one rejected.\<close>

datatype 'a lookup = Failed jsval | Found 'a

section \<open>The mail-sending collaborator and the outcome of a handler\<close>

text \<open>
  \<open>sendEmergencyEmail(to, subject, text)\<close> is not part of the controller: it is a
  parameter, a function from the message to the way the promise it returns settles.
\<close>

record mail =
  recipient :: string
  subject :: string
  text_body :: string

datatype settled = Fulfilled jsval | Rejected jsval

type_synonym mailer = "mail \<Rightarrow> settled"

text \<open>
  A handler answers with \<open>res.status(code).json(body)\<close>, or an exception escapes it.
  Next to the reply, the outcome records the messages handed to the collaborator, in
  order, and the calls of \<open>console.error\<close> (label and value).
\<close>

datatype reply = Reply nat jsval | Escaped jsval

record outcome =
  reply :: reply
  sent :: "mail list"
  logged :: "(string \<times> jsval) list"

definition cross_mark :: string where
  "cross_mark = [CHR 0xE2, CHR 0x9D, CHR 0x8C]"

definition stethoscope :: string where
  "stethoscope = [CHR 0xF0, CHR 0x9F, CHR 0xA9, CHR 0xBA]"

definition degree_sign :: string where
  "degree_sign = [CHR 0xC2, CHR 0xB0]"

text \<open>
  \<open>catch (error) { console.error(label, error); return res.status(500).json({ error: error.message }) }\<close>:
  reading the message of \<open>undefined\<close> or \<open>null\<close> throws inside the handler of the
  exception, and that exception escapes.
\<close>

definition catch_message :: "string \<Rightarrow> jsval \<Rightarrow> mail list \<Rightarrow> outcome" where
  "catch_message label e ms =
     \<lparr>reply = (case get_prop e ''message'' of
                  Inl t \<Rightarrow> Escaped t
                | Inr m \<Rightarrow> Reply 500 (JObj [(''error'', m)])),
      sent = ms,
      logged = [(label, e)]\<rparr>"

text \<open>
  \<open>await Promise.all(promises)\<close> throws the reason of the promise that rejects first
  in time, if one rejects. \<open>order\<close> is a parameter: the positions of the promises in
  the array, in the order in which they settle; a promise whose position it does not list
  settles after those it lists, in the order of the array.
\<close>

fun earliest_rejection :: "settled list \<Rightarrow> jsval option" where
  "earliest_rejection [] = None"
| "earliest_rejection (Fulfilled v # rs) = earliest_rejection rs"
| "earliest_rejection (Rejected e # rs) = Some e"

definition first_rejection :: "nat list \<Rightarrow> settled list \<Rightarrow> jsval option" where
  "first_rejection order promises =
     earliest_rejection (map (\<lambda>i. promises ! i) (filter (\<lambda>i. i < length promises) order) @ promises)"

section \<open>\<open>shareEmergencyInfo\<close>: POST /api/emergency/share/:contactId\<close>

text \<open>The medication lines of the two short e-mail texts.\<close>

definition medication_lines :: "medication list \<Rightarrow> string" where
  "medication_lines medications =
     (if length medications > 0
      then join ''\<newline>'' (map (\<lambda>m. ''- '' @ interp (medicine_name m) @ '' ('' @ interp (dosage m) @ '')'') medications)
      else ''None'')"

text \<open>\<open>profile?.path || d\<close> and \<open>profile?.path?.join(sep) || d\<close> for a profile that may be null.\<close>

definition profile_str_or :: "profile option \<Rightarrow> (profile \<Rightarrow> string option) \<Rightarrow> string \<Rightarrow> string" where
  "profile_str_or p path d = (case p of None \<Rightarrow> d | Some q \<Rightarrow> str_or (path q) d)"

definition profile_join_or :: "profile option \<Rightarrow> (profile \<Rightarrow> string list option) \<Rightarrow> string \<Rightarrow> string \<Rightarrow> string" where
  "profile_join_or p path sep d = (case p of None \<Rightarrow> d | Some q \<Rightarrow> join_or (path q) sep d)"

definition shareEmergencyInfo_text :: "user \<Rightarrow> profile option \<Rightarrow> medication list \<Rightarrow> string \<Rightarrow> string" where
  "shareEmergencyInfo_text u p medications contactEmail = trim (
     ''\<newline>Emergency Information for '' @ interp (user_name u) @ ''\<newline>'' @
     ''\<newline>'' @
     ''Blood Group: '' @ profile_str_or p blood_group ''Not Provided'' @ ''\<newline>'' @
     ''Allergies: '' @ profile_join_or p allergies '', '' ''None'' @ ''\<newline>'' @
     ''Existing Conditions: '' @ profile_join_or p existing_conditions '', '' ''None'' @ ''\<newline>'' @
     ''\<newline>'' @
     ''Medications:\<newline>'' @
     medication_lines medications @ ''\<newline>'' @
     ''\<newline>'' @
     ''Sent to: '' @ contactEmail @ ''\<newline>    '')"

text \<open>
  \<open>family?.emergency_contacts.find(c => c._id?.toString() === contactId)\<close>: no family
  gives \<open>undefined\<close>; a family whose contact list is unset throws.
\<close>

definition find_contact :: "family option \<Rightarrow> string \<Rightarrow> jsval + contact option" where
  "find_contact fam contactId =
     (case fam of
        None \<Rightarrow> Inr None
      | Some f \<Rightarrow>
          (case emergency_contacts f of
             None \<Rightarrow> Inl (type_error_reading ''undefined'' ''find'')
           | Some cs \<Rightarrow> Inr (find (\<lambda>c. contact_id c = Some contactId) cs)))"

text \<open>\<open>contact?.email || process.env.DEFAULT_EMERGENCY_EMAIL\<close>.\<close>

definition contact_email_or_default :: "contact option \<Rightarrow> string option \<Rightarrow> string option" where
  "contact_email_or_default c dflt =
     (case c of
        None \<Rightarrow> dflt
      | Some d \<Rightarrow> (case contact_email d of None \<Rightarrow> dflt | Some e \<Rightarrow> if e \<noteq> [] then Some e else dflt))"

definition shareEmergencyInfo ::
  "user \<Rightarrow> string \<Rightarrow> (family option \<times> profile option \<times> medication list) lookup \<Rightarrow>
   string option \<Rightarrow> mailer \<Rightarrow> outcome" where
  "shareEmergencyInfo u contactId db DEFAULT_EMERGENCY_EMAIL send =
     (let label = cross_mark @ '' shareEmergencyInfo error:'' in
      case db of
        Failed e \<Rightarrow> catch_message label e []
      | Found (fam, p, medications) \<Rightarrow>
          (case find_contact fam contactId of
             Inl t \<Rightarrow> catch_message label t []
           | Inr c \<Rightarrow>
               (case contact_email_or_default c DEFAULT_EMERGENCY_EMAIL of
                  None \<Rightarrow>
                    \<lparr>reply = Reply 400 (JObj [(''error'', JStr ''Emergency contact email not found.'')]),
                     sent = [], logged = []\<rparr>
                | Some contactEmail \<Rightarrow>
                    if contactEmail = [] then
                      \<lparr>reply = Reply 400 (JObj [(''error'', JStr ''Emergency contact email not found.'')]),
                       sent = [], logged = []\<rparr>
                    else
                      (let m = \<lparr>recipient = contactEmail, subject = ''Emergency Medical Info'',
                                text_body = shareEmergencyInfo_text u p medications contactEmail\<rparr> in
                       case send m of
                         Rejected e \<Rightarrow> catch_message label e [m]
                       | Fulfilled v \<Rightarrow>
                           \<lparr>reply = Reply 200 (JObj [(''message'', JStr ''Emergency info emailed successfully''),
                                                     (''sharedWith'', JStr contactEmail)]),
                            sent = [m], logged = []\<rparr>))))"

section \<open>\<open>mailEmergencyContacts\<close>: POST /api/emergency/mail-contacts\<close>

definition isArray :: "jsval \<Rightarrow> bool" where
  "isArray v = (case v of JArr xs \<Rightarrow> True | _ \<Rightarrow> False)"

definition items :: "jsval \<Rightarrow> jsval list" where
  "items v = (case v of JArr xs \<Rightarrow> xs | _ \<Rightarrow> [])"

text \<open>\<open>e => typeof e === 'string' && e.includes("@")\<close>.\<close>

definition is_email_entry :: "jsval \<Rightarrow> bool" where
  "is_email_entry e = (case e of JStr s \<Rightarrow> str_includes s ''@'' | _ \<Rightarrow> False)"

definition text_of :: "jsval \<Rightarrow> string" where
  "text_of e = (case e of JStr s \<Rightarrow> s | _ \<Rightarrow> [])"

definition mailEmergencyContacts_text :: "user \<Rightarrow> profile option \<Rightarrow> medication list \<Rightarrow> string \<Rightarrow> string" where
  "mailEmergencyContacts_text u p medications now = trim (
     ''\<newline>Emergency Health Summary for '' @ interp (user_name u) @ ''\<newline>'' @
     ''\<newline>'' @
     ''Email: '' @ interp (user_email u) @ ''\<newline>'' @
     ''Blood Group: '' @ profile_str_or p blood_group ''Not Provided'' @ ''\<newline>'' @
     ''Allergies: '' @ profile_join_or p allergies '', '' ''None'' @ ''\<newline>'' @
     ''Conditions: '' @ profile_join_or p existing_conditions '', '' ''None'' @ ''\<newline>'' @
     ''\<newline>'' @
     ''Medications:\<newline>'' @
     medication_lines medications @ ''\<newline>'' @
     ''\<newline>'' @
     ''Sent on: '' @ now @ ''\<newline>    '')"

text \<open>
  \<open>contacts\<close> is \<open>req.body.contacts\<close>, \<open>now\<close> the text of \<open>new Date().toLocaleString()\<close>.
  Every address gets its call of the collaborator before the promises are awaited;
  \<open>order\<close> is the order in which these promises settle.
\<close>

definition mailEmergencyContacts ::
  "user \<Rightarrow> jsval \<Rightarrow> (profile option \<times> medication list) lookup \<Rightarrow> string \<Rightarrow> mailer \<Rightarrow> nat list \<Rightarrow> outcome" where
  "mailEmergencyContacts u contacts db now send order =
     (let label = cross_mark @ '' mailEmergencyContacts error:'' in
      if \<not> truthy contacts \<or> \<not> isArray contacts \<or> length (items contacts) = 0 then
        \<lparr>reply = Reply 400 (JObj [(''error'', JStr ''No contacts provided.'')]), sent = [], logged = []\<rparr>
      else
        (let emails = filter is_email_entry (items contacts) in
         if length emails = 0 then
           \<lparr>reply = Reply 400 (JObj [(''error'', JStr ''No valid email addresses found.'')]),
            sent = [], logged = []\<rparr>
         else
           (case db of
              Failed e \<Rightarrow> catch_message label e []
            | Found (p, medications) \<Rightarrow>
                (let emailText = mailEmergencyContacts_text u p medications now;
                     ms = map (\<lambda>email. \<lparr>recipient = text_of email,
                                           subject = stethoscope @ '' Emergency Medical Info'',
                                           text_body = emailText\<rparr>) emails
                 in case first_rejection order (map send ms) of
                      Some e \<Rightarrow> catch_message label e ms
                    | None \<Rightarrow>
                        \<lparr>reply = Reply 200 (JObj [(''message'', JStr ''Emergency info sent successfully.''),
                                                  (''recipients'', JArr emails)]),
                         sent = ms, logged = []\<rparr>))))"

section \<open>\<open>shareSummary\<close>: POST /api/emergency/share-summary\<close>

subsection \<open>The report\<close>

text \<open>
  \<open>Vital.find({ user_id }).sort({ timestamp: -1 }).limit(1)\<close> on the vital records of
  the user: the records by falling time stamp, cut after the first. Records of the same
  time stamp keep the order in which the store holds them.
\<close>

definition Vital_find_latest :: "vital list \<Rightarrow> vital list" where
  "Vital_find_latest vs = take 1 (sort_key (\<lambda>v. - timestamp v) vs)"

text \<open>The interpolated expressions of the template, one definition each.\<close>

definition personal_block :: "profile option \<Rightarrow> string" where
  "personal_block p =
     (case p of
        Some q \<Rightarrow>
          ''Blood Group: '' @ str_or (blood_group q) ''Not Provided'' @ ''\<newline>'' @
          ''Age: '' @ num_or (age q) ''Not Provided'' @ ''\<newline>'' @
          ''Gender: '' @ str_or (gender q) ''Not Provided''
      | None \<Rightarrow> ''No profile information available'')"

definition medical_block :: "profile option \<Rightarrow> string" where
  "medical_block p =
     (case p of
        Some q \<Rightarrow>
          ''Allergies: '' @ join_or (allergies q) '', '' ''None reported'' @ ''\<newline>'' @
          ''Existing Conditions: '' @ join_or (existing_conditions q) '', '' ''None reported'' @ ''\<newline>'' @
          ''Family Doctor Email: '' @ join_or (family_doctor_email q) '', '' ''None registered''
      | None \<Rightarrow> ''No medical information available'')"

definition medication_entry :: "medication \<Rightarrow> string" where
  "medication_entry med =
     ''- '' @ interp (medicine_name med) @ '' ('' @ interp (dosage med) @ '')\<newline>'' @
     ''    Frequency: '' @ interp (frequency med) @ ''\<newline>'' @
     ''    Timing: '' @ join '', '' (timing med) @ ''\<newline>'' @
     ''    Stock: '' @ interp (stock_count med) @ '' units remaining''"

definition medications_block :: "medication list \<Rightarrow> string" where
  "medications_block medications =
     (if length medications > 0
      then join ''\<newline>\<newline>'' (map medication_entry medications)
      else ''No current medications'')"

text \<open>\<open>toLocaleString\<close> is the text of \<open>new Date(t).toLocaleString()\<close> for a time stamp.\<close>

definition vitals_block :: "(int \<Rightarrow> string) \<Rightarrow> vital list \<Rightarrow> string" where
  "vitals_block toLocaleString vitalsArray =
     (case vitalsArray of
        v # rest \<Rightarrow>
          ''\<newline>RECENT VITAL SIGNS\<newline>'' @
          ''----------------\<newline>'' @
          ''Blood Pressure: '' @ interp (bp_systolic v) @ ''/'' @ interp (bp_diastolic v) @ '' mmHg\<newline>'' @
          ''Blood Sugar: '' @ interp (sugar v) @ '' mg/dL\<newline>'' @
          ''Temperature: '' @ interp (temperature v) @ degree_sign @ ''F\<newline>'' @
          ''Weight: '' @ interp (weight v) @ '' kg\<newline>'' @
          ''Recorded on: '' @ toLocaleString (timestamp v)
      | [] \<Rightarrow> [])"

definition contact_entry :: "contact \<Rightarrow> string" where
  "contact_entry c =
     ''- '' @ interp (contact_name c) @ '' ('' @ interp (relation c) @ '')\<newline>'' @
     ''    Phone: '' @ str_or (phone c) ''Not provided'' @ ''\<newline>'' @
     ''    Email: '' @ interp (contact_email c)"

definition contacts_block :: "contact list \<Rightarrow> string" where
  "contacts_block cs = join ''\<newline>'' (map contact_entry cs)"

definition instructions :: string where
  "instructions =
     ''EMERGENCY INSTRUCTIONS\<newline>'' @
     ''--------------------\<newline>'' @
     ''1. This is an automated health summary. Please contact emergency services if needed.\<newline>'' @
     ''2. Contact family doctor or nearest emergency room for medical assistance.\<newline>'' @
     ''3. Always verify medication information with healthcare provider.\<newline>'' @
     ''4. For immediate assistance, contact the primary emergency contact listed above.\<newline>'' @
     ''\<newline>'' @
     ''This is an automated emergency health summary. Please do not reply.''"

text \<open>
  The template literal of \<open>summaryText\<close>, trimmed. \<open>now\<close> is the text of
  \<open>new Date().toLocaleString()\<close>, \<open>fname\<close> is \<open>family.name\<close> and \<open>cs\<close> is
  \<open>family.emergency_contacts\<close>.
\<close>

definition summaryText ::
  "user \<Rightarrow> profile option \<Rightarrow> medication list \<Rightarrow> string option \<Rightarrow> contact list \<Rightarrow> vital list \<Rightarrow>
   string \<Rightarrow> (int \<Rightarrow> string) \<Rightarrow> string" where
  "summaryText u p medications fname cs vitalsArray now toLocaleString = trim (
     ''\<newline>HEALTH SUMMARY REPORT\<newline>'' @
     ''--------------------\<newline>'' @
     ''Generated on: '' @ now @ ''\<newline>'' @
     ''\<newline>'' @
     ''PERSONAL INFORMATION\<newline>'' @
     ''------------------\<newline>'' @
     ''Name: '' @ interp (user_name u) @ ''\<newline>'' @
     ''Email: '' @ interp (user_email u) @ ''\<newline>'' @
     ''Family Group: '' @ interp fname @ ''\<newline>'' @
     personal_block p @ ''\<newline>'' @
     ''\<newline>'' @
     ''MEDICAL INFORMATION\<newline>'' @
     ''-----------------\<newline>'' @
     medical_block p @ ''\<newline>'' @
     ''\<newline>'' @
     ''CURRENT MEDICATIONS\<newline>'' @
     ''-----------------\<newline>'' @
     medications_block medications @ ''\<newline>'' @
     ''\<newline>'' @
     vitals_block toLocaleString vitalsArray @ ''\<newline>'' @
     ''\<newline>'' @
     ''EMERGENCY CONTACTS\<newline>'' @
     ''----------------\<newline>'' @
     contacts_block cs @ ''\<newline>'' @
     ''\<newline>'' @
     instructions @ ''\<newline>    '')"

subsection \<open>The delivery to all emergency contacts\<close>

text \<open>\<open>c => c.email && c.email.includes("@")\<close>.\<close>

definition has_valid_email :: "contact \<Rightarrow> bool" where
  "has_valid_email c = (case contact_email c of None \<Rightarrow> False | Some e \<Rightarrow> e \<noteq> [] \<and> str_includes e ''@'')"

text \<open>
  \<open>sendEmergencyEmail(...).catch(error => ({ email: contact.email, error: error.message }))\<close>:
  a rejection becomes a fulfilment with the failure entry, unless reading the message
  throws.
\<close>

definition caught :: "string \<Rightarrow> settled \<Rightarrow> settled" where
  "caught email s =
     (case s of
        Fulfilled v \<Rightarrow> Fulfilled v
      | Rejected e \<Rightarrow>
          (case get_prop e ''message'' of
             Inl t \<Rightarrow> Rejected t
           | Inr m \<Rightarrow> Fulfilled (JObj [(''email'', JStr email), (''error'', m)])))"

definition fulfilment :: "settled \<Rightarrow> jsval" where
  "fulfilment s = (case s of Fulfilled v \<Rightarrow> v | Rejected e \<Rightarrow> JUndefined)"

text \<open>\<open>results.filter(r => r.error)\<close>: reading \<open>error\<close> of \<open>undefined\<close> or \<open>null\<close> throws.\<close>

fun failures_of :: "jsval list \<Rightarrow> jsval + jsval list" where
  "failures_of [] = Inr []"
| "failures_of (r # rs) =
     (case get_prop r ''error'' of
        Inl t \<Rightarrow> Inl t
      | Inr e \<Rightarrow>
          (case failures_of rs of
             Inl t \<Rightarrow> Inl t
           | Inr fs \<Rightarrow> Inr (if truthy e then r # fs else fs)))"

text \<open>\<open>!results[i].error\<close>, evaluated only once \<open>failures_of\<close> has read every result.\<close>

definition no_error :: "jsval \<Rightarrow> bool" where
  "no_error r = (case get_prop r ''error'' of Inl t \<Rightarrow> False | Inr e \<Rightarrow> \<not> truthy e)"

definition summary_mail :: "user \<Rightarrow> string \<Rightarrow> contact \<Rightarrow> mail" where
  "summary_mail u body c =
     \<lparr>recipient = interp (contact_email c),
      subject = stethoscope @ '' Emergency Health Summary for '' @ interp (user_name u),
      text_body = body\<rparr>"

text \<open>
  The inner \<open>try\<close> of the handler, with its \<open>catch\<close>. \<open>order\<close> is the order in
  which the promises of the sends settle.
\<close>

definition send_failed :: "jsval \<Rightarrow> mail list \<Rightarrow> (string \<times> jsval) list \<Rightarrow> outcome" where
  "send_failed e ms logs =
     \<lparr>reply = Reply 500 (JObj [(''success'', JBool False),
                               (''error'', JStr ''Failed to send summary email. Please try again.'')]),
      sent = ms,
      logged = logs @ [(''Email sending error:'', e)]\<rparr>"

definition send_to_contacts :: "user \<Rightarrow> string \<Rightarrow> contact list \<Rightarrow> mailer \<Rightarrow> nat list \<Rightarrow> outcome" where
  "send_to_contacts u body cs send order =
     (let validContacts = filter has_valid_email cs in
      if length validContacts = 0 then
        \<lparr>reply = Reply 400 (JObj [(''success'', JBool False),
                                  (''error'', JStr ''No valid emergency contact emails found'')]),
         sent = [], logged = []\<rparr>
      else
        (let ms = map (summary_mail u body) validContacts;
             emailPromises = map (\<lambda>m. caught (recipient m) (send m)) ms
         in case first_rejection order emailPromises of
              Some t \<Rightarrow> send_failed t ms []
            | None \<Rightarrow>
                (let results = map fulfilment emailPromises in
                 case failures_of results of
                   Inl t \<Rightarrow> send_failed t ms []
                 | Inr failures \<Rightarrow>
                     (let logs = (if length failures > 0
                                  then [(''Failed to send to some contacts:'', JArr failures)] else [])
                      in if length failures > 0 \<and> length failures = length validContacts then
                           send_failed (JError ''Failed to send emails to all contacts'') ms logs
                         else
                           \<lparr>reply = Reply 200 (JObj
                              [(''success'', JBool True),
                               (''message'', JStr ''Health summary shared with emergency contacts''),
                               (''sentTo'', JArr (map (\<lambda>(c, r). JStr (interp (contact_email c)))
                                                   (filter (\<lambda>(c, r). no_error r) (zip validContacts results)))),
                               (''failures'', if length failures > 0 then JArr failures else JUndefined)]),
                            sent = ms, logged = logs\<rparr>))))"

text \<open>
  The handler. \<open>db\<close> is the outcome of the four queries (profile, medications, family
  and the vital records of the user, of which the query keeps the latest).
\<close>

definition no_contacts_found :: outcome where
  "no_contacts_found =
     \<lparr>reply = Reply 400 (JObj [(''error'', JStr ''No emergency contacts found'')]), sent = [], logged = []\<rparr>"

definition shareSummary ::
  "user \<Rightarrow> (profile option \<times> medication list \<times> family option \<times> vital list) lookup \<Rightarrow>
   string \<Rightarrow> (int \<Rightarrow> string) \<Rightarrow> mailer \<Rightarrow> nat list \<Rightarrow> outcome" where
  "shareSummary u db now toLocaleString send order =
     (case db of
        Failed e \<Rightarrow>
          \<lparr>reply = Reply 500 (JObj [(''error'', JStr ''Failed to send summary email.'')]),
           sent = [], logged = [(cross_mark @ '' shareSummary error:'', e)]\<rparr>
      | Found (p, medications, fam, vitals) \<Rightarrow>
          (case fam of
             None \<Rightarrow> no_contacts_found
           | Some f \<Rightarrow>
               (case emergency_contacts f of
                  None \<Rightarrow> no_contacts_found
                | Some cs \<Rightarrow>
                    if length cs = 0 then no_contacts_found
                    else
                      send_to_contacts u
                        (summaryText u p medications (family_name f) cs (Vital_find_latest vitals)
                           now toLocaleString)
                        cs send order)))"

section \<open>\<open>ApiClient.request\<close> of the browser client\<close>

text \<open>The decimal text of a status code.\<close>

fun decimal :: "nat \<Rightarrow> string" where
  "decimal n = (if n < 10 then [''0123456789'' ! n] else decimal (n div 10) @ [''0123456789'' ! (n mod 10)])"

datatype body = FormData | Text string

record request_init =
  http_method :: "string option"
  headers :: "(string \<times> string) list option"
  body :: "body option"

text \<open>
  \<open>fetch\<close> is a parameter: it rejects, or it resolves with a response whose status,
  status text and outcome of \<open>json()\<close> are given. \<open>response.ok\<close> is a status from 200 to 299.
\<close>

datatype json_outcome = ParseFailure jsval | Parsed jsval

datatype fetch_outcome = NetworkFailure jsval | Response nat string json_outcome

definition ok :: "nat \<Rightarrow> bool" where
  "ok status \<longleftrightarrow> 200 \<le> status \<and> status \<le> 299"

record api_response =
  success :: bool
  data :: "jsval option"
  error :: "jsval option"

text \<open>The body of the \<open>try\<close> block: \<open>Inl\<close> is a thrown exception.\<close>

definition request_try :: "fetch_outcome \<Rightarrow> jsval + api_response" where
  "request_try f =
     (case f of
        NetworkFailure e \<Rightarrow> Inl e
      | Response status statusText j \<Rightarrow>
          (case j of
             ParseFailure e \<Rightarrow> Inl e
           | Parsed d \<Rightarrow>
               if \<not> ok status then
                 (case get_prop d ''error'' of
                    Inl t \<Rightarrow> Inl t
                  | Inr e \<Rightarrow>
                      Inr \<lparr>success = False, data = None,
                           error = Some (if truthy e then e
                                         else JStr (''HTTP '' @ decimal status @ '': '' @ statusText))\<rparr>)
               else Inr \<lparr>success = True, data = Some d, error = None\<rparr>))"

text \<open>\<open>error instanceof Error ? error.message : 'Network error'\<close>.\<close>

definition request_catch :: "jsval \<Rightarrow> api_response" where
  "request_catch e =
     \<lparr>success = False, data = None,
      error = Some (case e of JError m \<Rightarrow> JStr m | _ \<Rightarrow> JStr ''Network error'')\<rparr>"

text \<open>
  Setting a header replaces the value of a name that is present and appends a new name.
  \<open>token\<close> is what \<open>localStorage.getItem('accessToken')\<close> returns (\<open>None\<close> for null).
\<close>

definition set_header :: "string \<Rightarrow> string \<Rightarrow> (string \<times> string) list \<Rightarrow> (string \<times> string) list" where
  "set_header k v hs = (if k \<in> fst ` set hs then map (\<lambda>(k', v'). if k' = k then (k', v) else (k', v')) hs else hs @ [(k, v)])"

definition request_headers :: "request_init \<Rightarrow> string option \<Rightarrow> (string \<times> string) list" where
  "request_headers options token =
     (let h0 = (case headers options of None \<Rightarrow> [] | Some h \<Rightarrow> h);
          h1 = (case token of None \<Rightarrow> h0 | Some t \<Rightarrow> if t \<noteq> [] then set_header ''Authorization'' (''Bearer '' @ t) h0 else h0)
      in if body options \<noteq> Some FormData then set_header ''Content-Type'' ''application/json'' h1 else h1)"

text \<open>
  \<open>request\<close> is an \<open>async\<close> method: the promise it returns rejects with an exception
  that escapes its body (\<open>Inl\<close>) or fulfils with the value it returns (\<open>Inr\<close>).
  \<open>getItem\<close> is the outcome of the call \<open>localStorage.getItem('accessToken')\<close>, which
  stands before the \<open>try\<close>: it throws (\<open>Inl\<close>, when the storage cannot be reached), or
  returns the stored token or null. \<open>options\<close> is an object, as its type says.
\<close>

definition request ::
  "string \<Rightarrow> string \<Rightarrow> request_init \<Rightarrow> jsval + string option \<Rightarrow>
   (string \<Rightarrow> request_init \<Rightarrow> fetch_outcome) \<Rightarrow> jsval + api_response" where
  "request baseURL endpoint options getItem fetch =
     (let url = baseURL @ endpoint in
      case getItem of
        Inl e \<Rightarrow> Inl e
      | Inr token \<Rightarrow>
          (let hs = request_headers options token in
           case request_try (fetch url (options\<lparr>headers := Some hs\<rparr>)) of
             Inl e \<Rightarrow> Inr (request_catch e)
           | Inr r \<Rightarrow> Inr r))"

section \<open>Notions used to state the properties\<close>

text \<open>
  The emergency contacts the summary handler can choose recipients from:
  \<open>family?.emergency_contacts\<close>, none when the family or the list is missing.
\<close>

definition family_contacts :: "family option \<Rightarrow> contact list" where
  "family_contacts fam = (case fam of None \<Rightarrow> [] | Some f \<Rightarrow> (case emergency_contacts f of None \<Rightarrow> [] | Some cs \<Rightarrow> cs))"

text \<open>
  What the summary handler takes as a send that succeeded and as a send that failed.
  A send is delivered when its promise fulfils with a value on which \<open>error\<close> can be
  read and is falsy. It has failed when its promise rejects with a reason whose
  \<open>message\<close> can be read and is truthy; that message is the reason of the failure and
  \<open>{ email, error: message }\<close> its entry in the list of failures.
\<close>

definition delivered :: "settled \<Rightarrow> bool" where
  "delivered s = (case s of Fulfilled v \<Rightarrow> no_error v | Rejected e \<Rightarrow> False)"

definition reason :: "settled \<Rightarrow> jsval" where
  "reason s = (case s of
                 Fulfilled v \<Rightarrow> JUndefined
               | Rejected e \<Rightarrow> (case get_prop e ''message'' of Inl t \<Rightarrow> JUndefined | Inr m \<Rightarrow> m))"

definition failed :: "settled \<Rightarrow> bool" where
  "failed s = (case s of Fulfilled v \<Rightarrow> False | Rejected e \<Rightarrow> truthy (reason s))"

definition failure_entry :: "mailer \<Rightarrow> mail \<Rightarrow> jsval" where
  "failure_entry send m = JObj [(''email'', JStr (recipient m)), (''error'', reason (send m))]"

abbreviation attempt :: "mailer \<Rightarrow> mail \<Rightarrow> settled" where
  "attempt send \<equiv> (\<lambda>m. caught (recipient m) (send m))"

text \<open>A string-typed value that is falsy: unset or empty.\<close>

definition falsy_text :: "string option \<Rightarrow> bool" where
  "falsy_text x \<longleftrightarrow> x = None \<or> x = Some []"

text \<open>
  What \<open>fetch\<close> answers to a call of \<open>request\<close> once the token has been read, and
  the text \<open>HTTP status: statusText\<close>.
\<close>

definition fetched :: "string \<Rightarrow> string \<Rightarrow> request_init \<Rightarrow> string option \<Rightarrow> (string \<Rightarrow> request_init \<Rightarrow> fetch_outcome) \<Rightarrow> fetch_outcome" where
  "fetched baseURL endpoint options token fetch =
     fetch (baseURL @ endpoint) (options\<lparr>headers := Some (request_headers options token)\<rparr>)"

definition http_text :: "nat \<Rightarrow> string \<Rightarrow> jsval" where
  "http_text status statusText = JStr (''HTTP '' @ decimal status @ '': '' @ statusText)"

text \<open>
  The report around its medication and vital-sign blocks: \<open>report_top\<close> is the text
  from the title to the heading of the medications, \<open>report_end\<close> the text from the
  heading of the emergency contacts to the last line.
\<close>

definition report_top :: "user \<Rightarrow> profile option \<Rightarrow> string option \<Rightarrow> string \<Rightarrow> string" where
  "report_top u p fname now =
     ''HEALTH SUMMARY REPORT\<newline>'' @
     ''--------------------\<newline>'' @
     ''Generated on: '' @ now @ ''\<newline>'' @
     ''\<newline>'' @
     ''PERSONAL INFORMATION\<newline>'' @
     ''------------------\<newline>'' @
     ''Name: '' @ interp (user_name u) @ ''\<newline>'' @
     ''Email: '' @ interp (user_email u) @ ''\<newline>'' @
     ''Family Group: '' @ interp fname @ ''\<newline>'' @
     personal_block p @ ''\<newline>'' @
     ''\<newline>'' @
     ''MEDICAL INFORMATION\<newline>'' @
     ''-----------------\<newline>'' @
     medical_block p @ ''\<newline>'' @
     ''\<newline>'' @
     ''CURRENT MEDICATIONS\<newline>'' @
     ''-----------------\<newline>''"

definition report_end :: "contact list \<Rightarrow> string" where
  "report_end cs =
     ''EMERGENCY CONTACTS\<newline>'' @
     ''----------------\<newline>'' @
     contacts_block cs @ ''\<newline>'' @
     ''\<newline>'' @
     instructions"

text \<open>The white space of one byte.\<close>

definition ascii_space :: "char set" where
  "ascii_space = {CHR 0x09, CHR 0x0A, CHR 0x0B, CHR 0x0C, CHR 0x0D, CHR 0x20}"

text \<open>A number-typed value that is falsy, and an array-typed value whose joined text is falsy.\<close>

definition falsy_number :: "number option \<Rightarrow> bool" where
  "falsy_number x \<longleftrightarrow> x = None \<or> x = Some ''0'' \<or> x = Some ''NaN''"

definition falsy_joined :: "string list option \<Rightarrow> bool" where
  "falsy_joined xs \<longleftrightarrow> (case xs of None \<Rightarrow> True | Some ys \<Rightarrow> join '', '' ys = [])"

section \<open>Sample inputs\<close>

definition sample_user :: user where
  "sample_user = \<lparr>user_name = Some ''Asha'', user_email = Some ''asha@example.org''\<rparr>"

definition accepting :: mailer where
  "accepting m = Fulfilled (JObj [(''messageId'', JStr ''1'')])"

definition rejecting :: mailer where
  "rejecting m = Rejected (JError ''mailbox unavailable'')"

definition rejecting_for :: "string \<Rightarrow> mailer" where
  "rejecting_for a m = (if recipient m = a then rejecting m else accepting m)"

definition void_rejecting_for :: "string \<Rightarrow> mailer" where
  "void_rejecting_for a m = (if recipient m = a then rejecting m else Fulfilled JUndefined)"

definition short_date :: "int \<Rightarrow> string" where
  "short_date t = ''2/11/2026, 10:00:00''"

definition contact_of :: "string \<Rightarrow> string option \<Rightarrow> contact" where
  "contact_of n e = \<lparr>contact_id = Some n, contact_name = Some n, relation = Some ''friend'', phone = None, contact_email = e\<rparr>"

definition family_of :: "contact list \<Rightarrow> family" where
  "family_of cs = \<lparr>family_name = Some ''Rao'', emergency_contacts = Some cs\<rparr>"

definition two_contacts :: "(profile option \<times> medication list \<times> family option \<times> vital list) lookup" where
  "two_contacts = Found (None, [], Some (family_of [contact_of ''A'' (Some ''a@x.com''), contact_of ''B'' (Some ''b@x.com'')]), [])"

definition no_options :: request_init where
  "no_options = \<lparr>http_method = None, headers = None, body = None\<rparr>"

definition structured_error :: "string \<Rightarrow> request_init \<Rightarrow> fetch_outcome" where
  "structured_error url init =
     Response 500 ''Internal Server Error'' (Parsed (JObj [(''error'', JObj [(''code'', JStr ''E_DB'')])]))"

definition not_found :: "string \<Rightarrow> request_init \<Rightarrow> fetch_outcome" where
  "not_found url init = Response 404 ''Not Found'' (Parsed (JObj [(''message'', JStr ''no such route'')]))"

definition profile_found :: "string \<Rightarrow> request_init \<Rightarrow> fetch_outcome" where
  "profile_found url init = Response 200 ''OK'' (Parsed (JObj [(''blood_group'', JStr ''O+'')]))"

definition refused :: "string \<Rightarrow> request_init \<Rightarrow> fetch_outcome" where
  "refused url init = Response 401 ''Unauthorized'' (Parsed (JObj [(''error'', JStr ''Unauthorized request'')]))"

definition offline :: "string \<Rightarrow> request_init \<Rightarrow> fetch_outcome" where
  "offline url init = NetworkFailure (JError ''Failed to fetch'')"

definition aborted :: "string \<Rightarrow> request_init \<Rightarrow> fetch_outcome" where
  "aborted url init = NetworkFailure (JStr ''cancelled by the caller'')"

definition null_body :: "string \<Rightarrow> request_init \<Rightarrow> fetch_outcome" where
  "null_body url init = Response 502 ''Bad Gateway'' (Parsed JNull)"

definition bare_profile :: profile where
  "bare_profile = \<lparr>blood_group = None, age = Some ''0'', gender = Some ''female'', allergies = Some [],
                    existing_conditions = Some [''asthma''], family_doctor_email = None\<rparr>"

definition older_vital :: vital where
  "older_vital = \<lparr>bp_systolic = Some ''110'', bp_diastolic = Some ''70'', sugar = Some ''90'',
                   temperature = Some ''98.2'', weight = Some ''71'', timestamp = 1000\<rparr>"

definition newer_vital :: vital where
  "newer_vital = \<lparr>bp_systolic = Some ''120'', bp_diastolic = Some ''80'', sugar = Some ''95'',
                   temperature = Some ''98.6'', weight = Some ''70'', timestamp = 2000\<rparr>"

section \<open>Properties\<close>

subsection \<open>Trimming\<close>

lemma find_holds: "find P xs = Some x \<Longrightarrow> x \<in> set xs \<and> P x"
  by (induction xs) (auto split: if_splits)

lemma strip_front_stop:
  assumes "\<forall>w \<in> set ws. w \<noteq> [] \<longrightarrow> \<not> prefix w s"
  shows "strip_front ws s = s"
proof -
  from assms have "find (\<lambda>w. w \<noteq> [] \<and> prefix w s) ws = None"
    by (auto simp: find_None_iff)
  then show ?thesis
    by (simp add: strip_front.simps [of ws s])
qed

lemma strip_front_step:
  assumes "[c] \<in> set ws" and "\<forall>w \<in> set ws. w \<noteq> [] \<and> hd w = c \<longrightarrow> w = [c]"
  shows "strip_front ws (c # s) = strip_front ws s"
proof -
  from assms(1) have "\<exists>w \<in> set ws. w \<noteq> [] \<and> prefix w (c # s)"
    by (intro bexI [of _ "[c]"]) simp_all
  then obtain w where w: "find (\<lambda>w. w \<noteq> [] \<and> prefix w (c # s)) ws = Some w"
    by (cases "find (\<lambda>w. w \<noteq> [] \<and> prefix w (c # s)) ws") (auto simp: find_None_iff)
  then have w1: "w \<in> set ws" and w2: "w \<noteq> []" and w3: "prefix w (c # s)"
    using find_holds [of "\<lambda>w. w \<noteq> [] \<and> prefix w (c # s)" ws w] by simp_all
  from w2 w3 have "hd w = c"
    by (cases w) simp_all
  with assms(2) w1 w2 have "w = [c]"
    by blast
  with w show ?thesis
    by (simp add: strip_front.simps [of ws "c # s"])
qed

lemma strip_front_spaces:
  assumes "set a \<subseteq> ascii_space"
  shows "strip_front white_space (a @ s) = strip_front white_space s \<and>
         strip_front (map rev white_space) (a @ s) = strip_front (map rev white_space) s"
  using assms
proof (induction a)
  case Nil
  show ?case by simp
next
  case (Cons c a)
  then have c: "c \<in> ascii_space" and a: "set a \<subseteq> ascii_space"
    by simp_all
  from c have "strip_front white_space (c # a @ s) = strip_front white_space (a @ s)"
    by (intro strip_front_step) (auto simp: ascii_space_def white_space_def)
  moreover from c have "strip_front (map rev white_space) (c # a @ s) = strip_front (map rev white_space) (a @ s)"
    by (intro strip_front_step) (auto simp: ascii_space_def white_space_def)
  ultimately show ?case
    using Cons.IH [OF a] by simp
qed

lemma trim_framed:
  assumes "set a \<subseteq> ascii_space" "set b \<subseteq> ascii_space"
    and "\<forall>w \<in> set white_space. \<not> prefix w s" "\<forall>w \<in> set white_space. \<not> suffix w s"
    and s: "s \<noteq> []"
  shows "trim (a @ s @ b) = s"
proof -
  have "strip_front white_space (a @ s @ b) = strip_front white_space (s @ b)"
    using assms(1) strip_front_spaces by blast
  also have "\<dots> = s @ b"
  proof (rule strip_front_stop, intro ballI impI notI)
    fix w assume w: "w \<in> set white_space" "w \<noteq> []" "prefix w (s @ b)"
    then have "prefix w s \<or> (\<exists>b'. b' \<noteq> [] \<and> w = s @ b' \<and> prefix b' b)"
      by (auto simp: prefix_append)
    with assms(3) w(1) obtain b' where b': "b' \<noteq> []" "w = s @ b'" "prefix b' b"
      by blast
    from b'(1) have "last b' \<in> set b'"
      by simp
    with b'(3) have "last b' \<in> set b"
      using set_mono_prefix by blast
    with assms(2) have "last b' \<in> ascii_space"
      by blast
    with b'(1,2) have "last w \<in> ascii_space"
      by simp
    moreover have "\<forall>w \<in> set white_space. last w \<in> ascii_space \<longrightarrow> length w = 1"
      by (simp add: white_space_def ascii_space_def)
    ultimately have "length w = 1"
      using w(1) by blast
    with b'(1,2) s show False
      by (cases s; cases b') simp_all
  qed
  finally have front: "trimStart (a @ s @ b) = s @ b"
    by (simp add: trimStart_def)
  have "strip_front (map rev white_space) (rev (s @ b)) = strip_front (map rev white_space) (rev s)"
    using assms(2) strip_front_spaces [of "rev b" "rev s"] by simp
  also have "\<dots> = rev s"
  proof (rule strip_front_stop, intro ballI impI notI)
    fix w assume "w \<in> set (map rev white_space)" "w \<noteq> []" "prefix w (rev s)"
    then obtain v where "v \<in> set white_space" "suffix v s"
      by (auto simp: suffix_to_prefix)
    with assms(4) show False
      by blast
  qed
  finally show ?thesis
    by (simp add: trim_def trimEnd_def front)
qed

lemma no_space_in_front:
  assumes "s \<noteq> []" "\<forall>w \<in> set white_space. hd w \<noteq> hd s"
  shows "\<forall>w \<in> set white_space. \<not> prefix w s"
proof (intro ballI notI)
  fix w assume w: "w \<in> set white_space" "prefix w s"
  have "\<forall>w \<in> set white_space. w \<noteq> []"
    by (simp add: white_space_def)
  with w(1) have "w \<noteq> []"
    by blast
  with w(2) assms(1) have "hd w = hd s"
    by (cases w; cases s) simp_all
  with assms(2) w(1) show False
    by blast
qed

lemma no_space_at_end:
  assumes "s \<noteq> []" "\<forall>w \<in> set white_space. last w \<noteq> last s"
  shows "\<forall>w \<in> set white_space. \<not> suffix w s"
proof (intro ballI notI)
  fix w assume w: "w \<in> set white_space" "suffix w s"
  have "\<forall>w \<in> set white_space. w \<noteq> []"
    by (simp add: white_space_def)
  with w(1) have "w \<noteq> []"
    by blast
  with w(2) have "last w = last s"
    by (auto simp: suffix_def)
  with assms(2) w(1) show False
    by blast
qed

lemma includes_sublist: "str_includes s t \<longleftrightarrow> sublist t s"
  by (induction s) (auto simp: sublist_Cons_right)

lemma includes_single: "str_includes s [c] \<longleftrightarrow> c \<in> set s"
  by (induction s) auto

lemma email_entry_step:
  "(case x of JStr s \<Rightarrow> if CHR ''@'' \<in> set s then [s] else [] | _ \<Rightarrow> []) = (if is_email_entry x then [text_of x] else [])"
  by (cases x) (simp_all add: is_email_entry_def text_of_def includes_single)

lemma email_entries: "map text_of (filter is_email_entry xs) = [s. JStr s \<leftarrow> xs, CHR ''@'' \<in> set s]"
  by (induction xs) (simp_all add: email_entry_step)

lemma valid_contacts: "map (\<lambda>c. interp (contact_email c)) (filter has_valid_email cs) = [e. c \<leftarrow> cs, Some e \<leftarrow> [contact_email c], CHR ''@'' \<in> set e]"
  by (induction cs) (auto simp: has_valid_email_def interp_def includes_single split: option.splits)

lemma earliest_rejection_None:
  "\<forall>s \<in> set ss. \<exists>v. s = Fulfilled v \<Longrightarrow> earliest_rejection ss = None"
  by (induction ss) auto

lemma earliest_rejection_Some:
  assumes "\<exists>s \<in> set ss. \<exists>e. s = Rejected e"
  shows "\<exists>e. earliest_rejection ss = Some e \<and> Rejected e \<in> set ss"
  using assms
proof (induction ss)
  case Nil
  then show ?case by simp
next
  case (Cons s ss)
  then show ?case by (cases s) auto
qed

lemma settled_in_order:
  "set (map (\<lambda>i. promises ! i) (filter (\<lambda>i. i < length promises) order) @ promises) = set promises"
  by auto

lemma first_rejection_None:
  assumes "\<forall>s \<in> set promises. \<exists>v. s = Fulfilled v"
  shows "first_rejection order promises = None"
  unfolding first_rejection_def
  by (rule earliest_rejection_None) (use assms in \<open>simp only: settled_in_order\<close>)

lemma first_rejection_Some:
  assumes "\<exists>s \<in> set promises. \<exists>e. s = Rejected e"
  shows "\<exists>e. first_rejection order promises = Some e \<and> Rejected e \<in> set promises"
proof -
  let ?ss = "map (\<lambda>i. promises ! i) (filter (\<lambda>i. i < length promises) order) @ promises"
  from assms have "\<exists>s \<in> set ?ss. \<exists>e. s = Rejected e"
    by (simp only: settled_in_order)
  then have "\<exists>e. earliest_rejection ?ss = Some e \<and> Rejected e \<in> set ?ss"
    by (rule earliest_rejection_Some)
  then show ?thesis
    by (simp only: first_rejection_def settled_in_order)
qed

lemma sent_catch_message [simp]: "sent (catch_message l e ms) = ms"
  by (simp add: catch_message_def)

lemma sent_mailEmergencyContacts:
  "map recipient (sent (mailEmergencyContacts u contacts (Found (p, meds)) now send order)) = map text_of (filter is_email_entry (items contacts))"
  by (auto simp: mailEmergencyContacts_def Let_def o_def items_def isArray_def split: option.splits jsval.splits)

lemma sent_send_failed [simp]: "sent (send_failed e ms l) = ms"
  by (simp add: send_failed_def)

lemma sent_send_to_contacts:
  "sent (send_to_contacts u txt cs send order) = map (summary_mail u txt) (filter has_valid_email cs)"
  by (simp add: send_to_contacts_def Let_def split: option.splits sum.splits)

lemma sent_shareSummary:
  "map recipient (sent (shareSummary u (Found (p, meds, fam, vs)) now fmt send order)) = map (\<lambda>c. interp (contact_email c)) (filter has_valid_email (family_contacts fam))"
  by (auto simp: shareSummary_def no_contacts_found_def family_contacts_def sent_send_to_contacts o_def summary_mail_def split: option.splits)

subsection \<open>Requests without a valid recipient\<close>

text \<open>
  C4. A request whose recipient list is empty, or holds no entry with an \<open>@\<close>, is answered
  with status 400 at once, and the mail-sending collaborator is not called: for
  \<open>mailEmergencyContacts\<close> whatever the record store does, for \<open>shareSummary\<close> once the
  record store has answered.
\<close>

theorem invalid_recipients_refused:
  "([s. JStr s \<leftarrow> items contacts, CHR ''@'' \<in> set s] = [] \<longrightarrow>
      mailEmergencyContacts u contacts db now send order =
        \<lparr>reply = Reply 400 (JObj [(''error'', JStr (if items contacts = [] then ''No contacts provided.''
                                                       else ''No valid email addresses found.''))]),
         sent = [], logged = []\<rparr>) \<and>
   ([e. c \<leftarrow> family_contacts fam, Some e \<leftarrow> [contact_email c], CHR ''@'' \<in> set e] = [] \<longrightarrow>
      shareSummary u (Found (p, meds, fam, vs)) now fmt send order =
        \<lparr>reply = Reply 400 (if family_contacts fam = []
                            then JObj [(''error'', JStr ''No emergency contacts found'')]
                            else JObj [(''success'', JBool False),
                                       (''error'', JStr ''No valid emergency contact emails found'')]),
         sent = [], logged = []\<rparr>)"
proof (intro conjI impI)
  assume "[s. JStr s \<leftarrow> items contacts, CHR ''@'' \<in> set s] = []"
  then have "map text_of (filter is_email_entry (items contacts)) = []"
    by (simp only: email_entries)
  then have none: "filter is_email_entry (items contacts) = []"
    by simp
  show "mailEmergencyContacts u contacts db now send order =
        \<lparr>reply = Reply 400 (JObj [(''error'', JStr (if items contacts = [] then ''No contacts provided.''
                                                       else ''No valid email addresses found.''))]),
         sent = [], logged = []\<rparr>"
  proof (cases contacts)
    case (JArr xs)
    with none show ?thesis
      by (simp add: mailEmergencyContacts_def items_def isArray_def)
  qed (simp_all add: mailEmergencyContacts_def items_def isArray_def)
next
  assume "[e. c \<leftarrow> family_contacts fam, Some e \<leftarrow> [contact_email c], CHR ''@'' \<in> set e] = []"
  then have "map (\<lambda>c. interp (contact_email c)) (filter has_valid_email (family_contacts fam)) = []"
    by (simp only: valid_contacts)
  then have none: "filter has_valid_email (family_contacts fam) = []"
    by simp
  then show "shareSummary u (Found (p, meds, fam, vs)) now fmt send order =
        \<lparr>reply = Reply 400 (if family_contacts fam = []
                            then JObj [(''error'', JStr ''No emergency contacts found'')]
                            else JObj [(''success'', JBool False),
                                       (''error'', JStr ''No valid emergency contact emails found'')]),
         sent = [], logged = []\<rparr>"
    by (auto simp: shareSummary_def no_contacts_found_def family_contacts_def send_to_contacts_def
             split: option.splits)
qed

theorem invalid_recipients_refused_witness:
  "mailEmergencyContacts sample_user (JArr [JStr ''not-an-email'']) (Found (None, [])) ''now'' accepting [] =
     \<lparr>reply = Reply 400 (JObj [(''error'', JStr ''No valid email addresses found.'')]), sent = [], logged = []\<rparr> \<and>
   shareSummary sample_user (Found (None, [], Some (family_of [contact_of ''Ravi'' (Some ''ravi.example.org'')]), []))
       ''now'' short_date accepting [] =
     \<lparr>reply = Reply 400 (JObj [(''success'', JBool False),
                               (''error'', JStr ''No valid emergency contact emails found'')]),
      sent = [], logged = []\<rparr>"
  using invalid_recipients_refused [where order = "[]" and contacts = "JArr [JStr ''not-an-email'']"
      and fam = "Some (family_of [contact_of ''Ravi'' (Some ''ravi.example.org'')])"
      and u = sample_user and db = "Found (None, [])" and now = "''now''" and send = accepting
      and p = None and meds = "[]" and vs = "[]" and fmt = short_date]
  by (simp add: items_def family_contacts_def family_of_def contact_of_def)

subsection \<open>The delivery of the summary, recipient by recipient\<close>

lemma delivered_not_failed: "delivered s \<Longrightarrow> \<not> failed s"
  by (cases s) (simp_all add: delivered_def failed_def)

lemma attempt_delivered:
  assumes "delivered (send m)"
  shows "\<exists>v. attempt send m = Fulfilled v \<and> no_error v \<and> (\<exists>x. get_prop v ''error'' = Inr x \<and> \<not> truthy x)"
  using assms by (cases "send m") (auto simp: delivered_def caught_def no_error_def split: sum.splits)

lemma attempt_failed:
  assumes "failed (send m)"
  shows "attempt send m = Fulfilled (failure_entry send m)"
    and "get_prop (failure_entry send m) ''error'' = Inr (reason (send m))"
    and "truthy (reason (send m))"
    and "\<not> no_error (failure_entry send m)"
  using assms
  by (cases "send m"; auto simp: failed_def caught_def reason_def failure_entry_def no_error_def split: sum.splits)+

lemma all_settle:
  assumes "\<forall>m \<in> set ms. delivered (send m) \<or> failed (send m)"
  shows "first_rejection order (map (attempt send) ms) = None"
proof (rule first_rejection_None, intro ballI)
  fix s assume "s \<in> set (map (attempt send) ms)"
  then obtain m where m: "m \<in> set ms" "s = attempt send m"
    by auto
  with assms have "delivered (send m) \<or> failed (send m)"
    by blast
  then have "\<exists>v. attempt send m = Fulfilled v"
    using attempt_delivered attempt_failed(1) by blast
  with m(2) show "\<exists>v. s = Fulfilled v"
    by simp
qed

lemma failures_of_results:
  assumes "\<forall>m \<in> set ms. delivered (send m) \<or> failed (send m)"
  shows "failures_of (map fulfilment (map (attempt send) ms)) =
         Inr (map (failure_entry send) (filter (\<lambda>m. failed (send m)) ms))"
  using assms
proof (induction ms)
  case Nil
  show ?case by simp
next
  case (Cons m ms)
  then have ih: "failures_of (map fulfilment (map (attempt send) ms)) =
         Inr (map (failure_entry send) (filter (\<lambda>m. failed (send m)) ms))"
    by simp
  from Cons.prems have "delivered (send m) \<or> failed (send m)" by simp
  then show ?case
  proof
    assume d: "delivered (send m)"
    then obtain v x where "attempt send m = Fulfilled v" "get_prop v ''error'' = Inr x" "\<not> truthy x"
      using attempt_delivered by blast
    then have "fulfilment (attempt send m) = v" "get_prop v ''error'' = Inr x" "\<not> truthy x"
      by (simp_all add: fulfilment_def)
    with ih d show ?thesis
      by (simp add: delivered_not_failed)
  next
    assume f: "failed (send m)"
    from f have "attempt send m = Fulfilled (failure_entry send m)"
      and "get_prop (failure_entry send m) ''error'' = Inr (reason (send m))"
      and "truthy (reason (send m))"
      by (rule attempt_failed)+
    then have "fulfilment (attempt send m) = failure_entry send m"
      and "get_prop (failure_entry send m) ''error'' = Inr (reason (send m))"
      and "truthy (reason (send m))"
      by (simp_all add: fulfilment_def)
    with ih f show ?thesis
      by simp
  qed
qed

lemma sentTo_results:
  assumes "\<forall>c \<in> set cs. delivered (send (mk c)) \<or> failed (send (mk c))"
    and "\<And>c. recipient (mk c) = interp (contact_email c)"
  shows "map (\<lambda>(c, r). JStr (interp (contact_email c)))
           (filter (\<lambda>(c, r). no_error r) (zip cs (map fulfilment (map (attempt send) (map mk cs))))) =
         map (\<lambda>m. JStr (recipient m)) (filter (\<lambda>m. delivered (send m)) (map mk cs))"
  using assms(1)
proof (induction cs)
  case Nil
  show ?case by simp
next
  case (Cons c cs)
  from Cons.prems have "delivered (send (mk c)) \<or> failed (send (mk c))" by simp
  then show ?case
  proof
    assume d: "delivered (send (mk c))"
    then obtain v where "attempt send (mk c) = Fulfilled v" "no_error v"
      using attempt_delivered by blast
    then have "fulfilment (attempt send (mk c)) = v" "no_error v"
      by (simp_all add: fulfilment_def)
    with Cons d show ?thesis
      by (simp add: assms(2))
  next
    assume f: "failed (send (mk c))"
    then have "\<not> delivered (send (mk c))"
      using delivered_not_failed by blast
    moreover from f have "attempt send (mk c) = Fulfilled (failure_entry send (mk c))"
      and "\<not> no_error (failure_entry send (mk c))"
      by (rule attempt_failed)+
    then have "fulfilment (attempt send (mk c)) = failure_entry send (mk c)"
      and "\<not> no_error (failure_entry send (mk c))"
      by (simp_all add: fulfilment_def)
    ultimately show ?thesis using Cons
      by simp
  qed
qed

lemma all_failed_iff:
  assumes "\<forall>m \<in> set ms. delivered (send m) \<or> failed (send m)"
  shows "length (filter (\<lambda>m. failed (send m)) ms) = length ms \<longleftrightarrow> filter (\<lambda>m. delivered (send m)) ms = []"
proof -
  have "length (filter (\<lambda>m. failed (send m)) ms) = length ms \<longleftrightarrow> (\<forall>m \<in> set ms. failed (send m))"
    by (metis filter_True length_filter_less less_irrefl)
  also have "\<dots> \<longleftrightarrow> filter (\<lambda>m. delivered (send m)) ms = []"
    using assms delivered_not_failed by (auto simp: filter_empty_conv)
  finally show ?thesis .
qed

lemma count_split:
  assumes "\<forall>m \<in> set ms. delivered (send m) \<or> failed (send m)"
  shows "length (filter (\<lambda>m. delivered (send m)) ms) + length (filter (\<lambda>m. failed (send m)) ms) = length ms"
  using assms
proof (induction ms)
  case Nil
  show ?case by simp
next
  case (Cons m ms)
  then show ?case using delivered_not_failed [of "send m"] by auto
qed

lemma fan_out:
  fixes u :: user and report :: string and cs :: "contact list" and send :: mailer
  defines "ms \<equiv> map (summary_mail u report) (filter has_valid_email cs)"
  assumes wb: "\<forall>m \<in> set ms. delivered (send m) \<or> failed (send m)"
    and ne: "ms \<noteq> []"
  shows "send_to_contacts u report cs send order =
     (let S = filter (\<lambda>m. delivered (send m)) ms;
          F = filter (\<lambda>m. failed (send m)) ms;
          logs = (if F = [] then [] else [(''Failed to send to some contacts:'', JArr (map (failure_entry send) F))])
      in if S = [] then send_failed (JError ''Failed to send emails to all contacts'') ms logs
         else \<lparr>reply = Reply 200 (JObj
                  [(''success'', JBool True),
                   (''message'', JStr ''Health summary shared with emergency contacts''),
                   (''sentTo'', JArr (map (\<lambda>m. JStr (recipient m)) S)),
                   (''failures'', if F = [] then JUndefined else JArr (map (failure_entry send) F))]),
               sent = ms, logged = logs\<rparr>)"
proof -
  let ?vc = "filter has_valid_email cs"
  let ?S = "filter (\<lambda>m. delivered (send m)) ms"
  let ?F = "filter (\<lambda>m. failed (send m)) ms"
  have e0: "(length ?vc = 0) = False"
    using ne by (simp add: ms_def)
  have e1: "first_rejection order (map (attempt send) (map (summary_mail u report) ?vc)) = None"
    using all_settle [OF wb] by (simp only: ms_def)
  have e2: "failures_of (map fulfilment (map (attempt send) (map (summary_mail u report) ?vc))) =
         Inr (map (failure_entry send) ?F)"
    using failures_of_results [OF wb] by (simp only: ms_def)
  have wbc: "\<forall>c \<in> set ?vc. delivered (send (summary_mail u report c)) \<or> failed (send (summary_mail u report c))"
    using wb by (simp add: ms_def)
  have e3: "map (\<lambda>(c, r). JStr (interp (contact_email c)))
           (filter (\<lambda>(c, r). no_error r) (zip ?vc (map fulfilment (map (attempt send) (map (summary_mail u report) ?vc))))) =
         map (\<lambda>m. JStr (recipient m)) ?S"
    unfolding ms_def using wbc by (rule sentTo_results) (simp add: summary_mail_def)
  have len: "length ms = length ?vc"
    by (simp add: ms_def)
  have r4: "length ?F = length ?vc \<longleftrightarrow> ?S = []"
    using all_failed_iff [OF wb] by (simp only: len)
  have r5: "?F \<noteq> []" if "?S = []"
  proof -
    from that have "length ?F = length ms"
      using r4 len by simp
    with ne show ?thesis by auto
  qed
  have unf: "send_to_contacts u report cs send order =
      (if length (map (failure_entry send) ?F) > 0 \<and> length (map (failure_entry send) ?F) = length ?vc then
         send_failed (JError ''Failed to send emails to all contacts'') ms
           (if length (map (failure_entry send) ?F) > 0
            then [(''Failed to send to some contacts:'', JArr (map (failure_entry send) ?F))] else [])
       else
         \<lparr>reply = Reply 200 (JObj
            [(''success'', JBool True),
             (''message'', JStr ''Health summary shared with emergency contacts''),
             (''sentTo'', JArr (map (\<lambda>m. JStr (recipient m)) ?S)),
             (''failures'', if length (map (failure_entry send) ?F) > 0 then JArr (map (failure_entry send) ?F) else JUndefined)]),
          sent = ms,
          logged = (if length (map (failure_entry send) ?F) > 0
            then [(''Failed to send to some contacts:'', JArr (map (failure_entry send) ?F))] else [])\<rparr>)"
    unfolding send_to_contacts_def Let_def
    by (simp only: e0 e1 e2 e3 if_False option.case sum.case ms_def)
  show ?thesis
  proof (cases "?S = []")
    case True
    then have "?F \<noteq> []" "length ?F = length ?vc"
      using r4 r5 by simp_all
    moreover have "?vc \<noteq> []"
      using ne by (simp add: ms_def)
    ultimately show ?thesis
      unfolding unf Let_def using True by simp
  next
    case False
    then have "length ?F \<noteq> length ?vc"
      using r4 by simp
    with False show ?thesis
      unfolding unf Let_def by simp
  qed
qed

lemma shareSummary_dispatch:
  assumes "sent (shareSummary u db now fmt send order) \<noteq> []"
  shows "\<exists>report cs. shareSummary u db now fmt send order = send_to_contacts u report cs send order \<and>
           sent (shareSummary u db now fmt send order) = map (summary_mail u report) (filter has_valid_email cs)"
proof -
  have *: "sent (send_to_contacts u report cs send order) = map (summary_mail u report) (filter has_valid_email cs)" for report cs
    by (simp add: send_to_contacts_def Let_def split: option.splits sum.splits)
  show ?thesis
  proof (cases db)
    case (Failed e)
    with assms show ?thesis by (simp add: shareSummary_def)
  next
    case (Found x)
    obtain p meds fam vs where x: "x = (p, meds, fam, vs)"
      by (cases x) auto
    show ?thesis
    proof (cases fam)
      case None
      with assms Found x show ?thesis by (simp add: shareSummary_def no_contacts_found_def)
    next
      case (Some f)
      show ?thesis
      proof (cases "emergency_contacts f")
        case None
        with assms Found x Some show ?thesis by (simp add: shareSummary_def no_contacts_found_def)
      next
        case (Some cs)
        with assms Found x \<open>fam = Some f\<close> have "cs \<noteq> []"
          by (auto simp: shareSummary_def no_contacts_found_def)
        with Found x \<open>fam = Some f\<close> Some show ?thesis
          using * by (auto simp: shareSummary_def)
      qed
    qed
  qed
qed

lemma summary_outcome:
  assumes wb: "\<forall>m \<in> set (sent (shareSummary u db now fmt send order)). delivered (send m) \<or> failed (send m)"
    and ne: "sent (shareSummary u db now fmt send order) \<noteq> []"
  shows "reply (shareSummary u db now fmt send order) =
     (if filter (\<lambda>m. delivered (send m)) (sent (shareSummary u db now fmt send order)) = []
      then Reply 500 (JObj [(''success'', JBool False),
                            (''error'', JStr ''Failed to send summary email. Please try again.'')])
      else Reply 200 (JObj
             [(''success'', JBool True),
              (''message'', JStr ''Health summary shared with emergency contacts''),
              (''sentTo'', JArr (map (\<lambda>m. JStr (recipient m))
                                  (filter (\<lambda>m. delivered (send m)) (sent (shareSummary u db now fmt send order))))),
              (''failures'',
                 if filter (\<lambda>m. failed (send m)) (sent (shareSummary u db now fmt send order)) = [] then JUndefined
                 else JArr (map (failure_entry send)
                              (filter (\<lambda>m. failed (send m)) (sent (shareSummary u db now fmt send order)))))]))"
    and "logged (shareSummary u db now fmt send order) =
     (if filter (\<lambda>m. failed (send m)) (sent (shareSummary u db now fmt send order)) = [] then []
      else [(''Failed to send to some contacts:'',
             JArr (map (failure_entry send)
                     (filter (\<lambda>m. failed (send m)) (sent (shareSummary u db now fmt send order)))))]) @
     (if filter (\<lambda>m. delivered (send m)) (sent (shareSummary u db now fmt send order)) = []
      then [(''Email sending error:'', JError ''Failed to send emails to all contacts'')] else [])"
proof -
  from shareSummary_dispatch [OF ne] obtain report cs
    where eq: "shareSummary u db now fmt send order = send_to_contacts u report cs send order"
      and ms: "sent (shareSummary u db now fmt send order) = map (summary_mail u report) (filter has_valid_email cs)"
    by blast
  let ?ms = "map (summary_mail u report) (filter has_valid_email cs)"
  from wb ne have fo: "send_to_contacts u report cs send order =
     (let S = filter (\<lambda>m. delivered (send m)) ?ms;
          F = filter (\<lambda>m. failed (send m)) ?ms;
          logs = (if F = [] then [] else [(''Failed to send to some contacts:'', JArr (map (failure_entry send) F))])
      in if S = [] then send_failed (JError ''Failed to send emails to all contacts'') ?ms logs
         else \<lparr>reply = Reply 200 (JObj
                  [(''success'', JBool True),
                   (''message'', JStr ''Health summary shared with emergency contacts''),
                   (''sentTo'', JArr (map (\<lambda>m. JStr (recipient m)) S)),
                   (''failures'', if F = [] then JUndefined else JArr (map (failure_entry send) F))]),
               sent = ?ms, logged = logs\<rparr>)"
    unfolding ms by (rule fan_out)
  show "reply (shareSummary u db now fmt send order) =
     (if filter (\<lambda>m. delivered (send m)) (sent (shareSummary u db now fmt send order)) = []
      then Reply 500 (JObj [(''success'', JBool False),
                            (''error'', JStr ''Failed to send summary email. Please try again.'')])
      else Reply 200 (JObj
             [(''success'', JBool True),
              (''message'', JStr ''Health summary shared with emergency contacts''),
              (''sentTo'', JArr (map (\<lambda>m. JStr (recipient m))
                                  (filter (\<lambda>m. delivered (send m)) (sent (shareSummary u db now fmt send order))))),
              (''failures'',
                 if filter (\<lambda>m. failed (send m)) (sent (shareSummary u db now fmt send order)) = [] then JUndefined
                 else JArr (map (failure_entry send)
                              (filter (\<lambda>m. failed (send m)) (sent (shareSummary u db now fmt send order)))))]))"
    unfolding ms unfolding eq fo Let_def
    by (cases "filter (\<lambda>m. delivered (send m)) ?ms = []") (simp_all add: send_failed_def)
  show "logged (shareSummary u db now fmt send order) =
     (if filter (\<lambda>m. failed (send m)) (sent (shareSummary u db now fmt send order)) = [] then []
      else [(''Failed to send to some contacts:'',
             JArr (map (failure_entry send)
                     (filter (\<lambda>m. failed (send m)) (sent (shareSummary u db now fmt send order)))))]) @
     (if filter (\<lambda>m. delivered (send m)) (sent (shareSummary u db now fmt send order)) = []
      then [(''Email sending error:'', JError ''Failed to send emails to all contacts'')] else [])"
    unfolding ms unfolding eq fo Let_def
    by (cases "filter (\<lambda>m. delivered (send m)) ?ms = []") (simp_all add: send_failed_def)
qed

subsection \<open>The recipients handed to the collaborator\<close>

lemma no_rejection:
  assumes "\<forall>m \<in> set ms. \<exists>v. send m = Fulfilled v"
  shows "first_rejection order (map send ms) = None"
  using assms by (intro first_rejection_None) auto

lemma email_entries_are_strings:
  "map JStr (map text_of (filter is_email_entry xs)) = filter is_email_entry xs"
proof (induction xs)
  case Nil
  show ?case by simp
next
  case (Cons x xs)
  then show ?case by (cases x) (simp_all add: is_email_entry_def text_of_def)
qed

lemma mail_contacts_all_sent:
  assumes "filter is_email_entry (items contacts) \<noteq> []"
    and "\<forall>m \<in> set (sent (mailEmergencyContacts u contacts (Found (p, meds)) now send order)). \<exists>v. send m = Fulfilled v"
  shows "reply (mailEmergencyContacts u contacts (Found (p, meds)) now send order) =
           Reply 200 (JObj [(''message'', JStr ''Emergency info sent successfully.''),
                            (''recipients'', JArr (filter is_email_entry (items contacts)))])"
proof -
  from assms(1) have guard: "\<not> (\<not> truthy contacts \<or> \<not> isArray contacts \<or> length (items contacts) = 0)"
    by (cases contacts) (auto simp: items_def isArray_def)
  let ?ms = "map (\<lambda>email. \<lparr>recipient = text_of email, subject = stethoscope @ '' Emergency Medical Info'',
                 text_body = mailEmergencyContacts_text u p meds now\<rparr>) (filter is_email_entry (items contacts))"
  have ms: "sent (mailEmergencyContacts u contacts (Found (p, meds)) now send order) = ?ms"
    using guard assms(1) by (simp add: mailEmergencyContacts_def Let_def split: option.splits)
  have "first_rejection order (map send ?ms) = None"
    using assms(2) unfolding ms by (rule no_rejection)
  with guard assms(1) show ?thesis
    by (simp add: mailEmergencyContacts_def Let_def)
qed

text \<open>
  C5. Once the record store has answered, the recipients handed to the mail-sending
  collaborator are exactly the entries that are strings with an \<open>@\<close>, in their order; any
  other entry is left out and nothing is sent to it. Leaving an entry out is no error:
  when the sends to the entries that remain succeed, the reply is 200 and lists them.
\<close>

theorem dispatch_is_entries_with_at:
  "map recipient (sent (mailEmergencyContacts u contacts (Found (p, meds)) now send order)) =
     [s. JStr s \<leftarrow> items contacts, CHR ''@'' \<in> set s] \<and>
   map recipient (sent (shareSummary u (Found (p, meds, fam, vs)) now fmt send order)) =
     [e. c \<leftarrow> family_contacts fam, Some e \<leftarrow> [contact_email c], CHR ''@'' \<in> set e] \<and>
   ([s. JStr s \<leftarrow> items contacts, CHR ''@'' \<in> set s] \<noteq> [] \<longrightarrow>
    (\<forall>m \<in> set (sent (mailEmergencyContacts u contacts (Found (p, meds)) now send order)). \<exists>v. send m = Fulfilled v) \<longrightarrow>
      reply (mailEmergencyContacts u contacts (Found (p, meds)) now send order) =
        Reply 200 (JObj [(''message'', JStr ''Emergency info sent successfully.''),
                         (''recipients'', JArr (map JStr [s. JStr s \<leftarrow> items contacts, CHR ''@'' \<in> set s]))])) \<and>
   ([e. c \<leftarrow> family_contacts fam, Some e \<leftarrow> [contact_email c], CHR ''@'' \<in> set e] \<noteq> [] \<longrightarrow>
    (\<forall>m \<in> set (sent (shareSummary u (Found (p, meds, fam, vs)) now fmt send order)). delivered (send m)) \<longrightarrow>
      reply (shareSummary u (Found (p, meds, fam, vs)) now fmt send order) =
        Reply 200 (JObj
          [(''success'', JBool True),
           (''message'', JStr ''Health summary shared with emergency contacts''),
           (''sentTo'', JArr (map JStr [e. c \<leftarrow> family_contacts fam, Some e \<leftarrow> [contact_email c], CHR ''@'' \<in> set e])),
           (''failures'', JUndefined)]))"
proof (intro conjI impI)
  show "map recipient (sent (mailEmergencyContacts u contacts (Found (p, meds)) now send order)) =
     [s. JStr s \<leftarrow> items contacts, CHR ''@'' \<in> set s]"
    by (simp only: sent_mailEmergencyContacts email_entries)
  show r: "map recipient (sent (shareSummary u (Found (p, meds, fam, vs)) now fmt send order)) =
     [e. c \<leftarrow> family_contacts fam, Some e \<leftarrow> [contact_email c], CHR ''@'' \<in> set e]"
    by (simp only: sent_shareSummary valid_contacts)
  {
    assume ne: "[s. JStr s \<leftarrow> items contacts, CHR ''@'' \<in> set s] \<noteq> []"
      and ok: "\<forall>m \<in> set (sent (mailEmergencyContacts u contacts (Found (p, meds)) now send order)). \<exists>v. send m = Fulfilled v"
    have strings: "map text_of (filter is_email_entry (items contacts)) =
                   [s. JStr s \<leftarrow> items contacts, CHR ''@'' \<in> set s]"
      by (rule email_entries)
    with ne have "filter is_email_entry (items contacts) \<noteq> []"
      by auto
    then have "reply (mailEmergencyContacts u contacts (Found (p, meds)) now send order) =
           Reply 200 (JObj [(''message'', JStr ''Emergency info sent successfully.''),
                            (''recipients'', JArr (filter is_email_entry (items contacts)))])"
      using ok by (rule mail_contacts_all_sent)
    moreover have "filter is_email_entry (items contacts) = map JStr [s. JStr s \<leftarrow> items contacts, CHR ''@'' \<in> set s]"
      using email_entries_are_strings [of "items contacts", symmetric] by (simp only: strings)
    ultimately show "reply (mailEmergencyContacts u contacts (Found (p, meds)) now send order) =
        Reply 200 (JObj [(''message'', JStr ''Emergency info sent successfully.''),
                         (''recipients'', JArr (map JStr [s. JStr s \<leftarrow> items contacts, CHR ''@'' \<in> set s]))])"
      by (simp only:)
  }
  {
    let ?ms = "sent (shareSummary u (Found (p, meds, fam, vs)) now fmt send order)"
    assume ne: "[e. c \<leftarrow> family_contacts fam, Some e \<leftarrow> [contact_email c], CHR ''@'' \<in> set e] \<noteq> []"
      and ok: "\<forall>m \<in> set ?ms. delivered (send m)"
    from ne r have ms: "?ms \<noteq> []"
      by auto
    from ok have wb: "\<forall>m \<in> set ?ms. delivered (send m) \<or> failed (send m)"
      by blast
    from ok have S: "filter (\<lambda>m. delivered (send m)) ?ms = ?ms"
      by simp
    from ok have F: "filter (\<lambda>m. failed (send m)) ?ms = []"
      using delivered_not_failed by (auto simp: filter_empty_conv)
    have "map (\<lambda>m. JStr (recipient m)) ?ms = map JStr (map recipient ?ms)"
      by simp
    then have names: "map (\<lambda>m. JStr (recipient m)) ?ms =
        map JStr [e. c \<leftarrow> family_contacts fam, Some e \<leftarrow> [contact_email c], CHR ''@'' \<in> set e]"
      by (simp only: r)
    show "reply (shareSummary u (Found (p, meds, fam, vs)) now fmt send order) =
        Reply 200 (JObj
          [(''success'', JBool True),
           (''message'', JStr ''Health summary shared with emergency contacts''),
           (''sentTo'', JArr (map JStr [e. c \<leftarrow> family_contacts fam, Some e \<leftarrow> [contact_email c], CHR ''@'' \<in> set e])),
           (''failures'', JUndefined)])"
      using ms by (simp only: summary_outcome(1) [OF wb ms] S F names if_False if_True simp_thms)
  }
qed

theorem dispatch_is_entries_with_at_witness:
  "map recipient (sent (mailEmergencyContacts sample_user
       (JArr [JStr ''a@x.com'', JStr ''not-an-email'', JStr ''b@x.com'']) (Found (None, [])) ''now'' accepting [Suc 0, 0])) =
     [''a@x.com'', ''b@x.com''] \<and>
   reply (mailEmergencyContacts sample_user
       (JArr [JStr ''a@x.com'', JStr ''not-an-email'', JStr ''b@x.com'']) (Found (None, [])) ''now'' accepting [Suc 0, 0]) =
     Reply 200 (JObj [(''message'', JStr ''Emergency info sent successfully.''),
                      (''recipients'', JArr [JStr ''a@x.com'', JStr ''b@x.com''])]) \<and>
   map recipient (sent (shareSummary sample_user
       (Found (None, [], Some (family_of [contact_of ''A'' (Some ''a@x.com''), contact_of ''N'' (Some ''not-an-email''),
                                          contact_of ''B'' (Some ''b@x.com''), contact_of ''U'' None]), []))
       ''now'' short_date accepting [Suc 0, 0])) =
     [''a@x.com'', ''b@x.com''] \<and>
   reply (shareSummary sample_user
       (Found (None, [], Some (family_of [contact_of ''A'' (Some ''a@x.com''), contact_of ''N'' (Some ''not-an-email''),
                                          contact_of ''B'' (Some ''b@x.com''), contact_of ''U'' None]), []))
       ''now'' short_date accepting [Suc 0, 0]) =
     Reply 200 (JObj [(''success'', JBool True),
                      (''message'', JStr ''Health summary shared with emergency contacts''),
                      (''sentTo'', JArr [JStr ''a@x.com'', JStr ''b@x.com'']),
                      (''failures'', JUndefined)])"
proof -
  let ?cs = "JArr [JStr ''a@x.com'', JStr ''not-an-email'', JStr ''b@x.com'']"
  let ?fam = "Some (family_of [contact_of ''A'' (Some ''a@x.com''), contact_of ''N'' (Some ''not-an-email''),
                               contact_of ''B'' (Some ''b@x.com''), contact_of ''U'' None])"
  note t = dispatch_is_entries_with_at [where u = sample_user and contacts = ?cs
      and p = None and meds = "[]" and now = "''now''" and send = accepting and order = "[Suc 0, 0]"
      and fam = ?fam and vs = "[]" and fmt = short_date]
  have ok: "\<forall>m \<in> set (sent (mailEmergencyContacts sample_user ?cs (Found (None, [])) ''now'' accepting [Suc 0, 0])).
              \<exists>v. accepting m = Fulfilled v"
    by (simp add: accepting_def)
  have ok': "\<forall>m \<in> set (sent (shareSummary sample_user (Found (None, [], ?fam, [])) ''now'' short_date accepting [Suc 0, 0])).
              delivered (accepting m)"
    by (simp add: accepting_def delivered_def no_error_def)
  have e1: "[s. JStr s \<leftarrow> items ?cs, CHR ''@'' \<in> set s] = [''a@x.com'', ''b@x.com'']"
    by (simp add: items_def)
  have e2: "[e. c \<leftarrow> family_contacts ?fam, Some e \<leftarrow> [contact_email c], CHR ''@'' \<in> set e] =
            [''a@x.com'', ''b@x.com'']"
    by (simp add: family_contacts_def family_of_def contact_of_def)
  have ne: "[''a@x.com'', ''b@x.com''] \<noteq> []"
    by simp
  from t have "map recipient (sent (mailEmergencyContacts sample_user ?cs (Found (None, [])) ''now'' accepting [Suc 0, 0])) =
               [''a@x.com'', ''b@x.com'']"
    unfolding e1 by (rule conjunct1)
  moreover from t ok ne have "reply (mailEmergencyContacts sample_user ?cs (Found (None, [])) ''now'' accepting [Suc 0, 0]) =
     Reply 200 (JObj [(''message'', JStr ''Emergency info sent successfully.''),
                      (''recipients'', JArr (map JStr [''a@x.com'', ''b@x.com'']))])"
    unfolding e1 by blast
  moreover from t have "map recipient (sent (shareSummary sample_user (Found (None, [], ?fam, [])) ''now'' short_date accepting [Suc 0, 0])) =
               [''a@x.com'', ''b@x.com'']"
    unfolding e2 by blast
  moreover from t ok' ne have "reply (shareSummary sample_user (Found (None, [], ?fam, [])) ''now'' short_date accepting [Suc 0, 0]) =
     Reply 200 (JObj [(''success'', JBool True),
                      (''message'', JStr ''Health summary shared with emergency contacts''),
                      (''sentTo'', JArr (map JStr [''a@x.com'', ''b@x.com''])),
                      (''failures'', JUndefined)])"
    unfolding e2 by blast
  ultimately show ?thesis
    by simp
qed

subsection \<open>What a rejection does\<close>

lemma sent_two_contacts:
  "\<exists>report. sent (shareSummary u two_contacts now fmt send order) =
     [\<lparr>recipient = ''a@x.com'', subject = stethoscope @ '' Emergency Health Summary for '' @ interp (user_name u), text_body = report\<rparr>,
      \<lparr>recipient = ''b@x.com'', subject = stethoscope @ '' Emergency Health Summary for '' @ interp (user_name u), text_body = report\<rparr>]"
  by (simp add: two_contacts_def shareSummary_def family_of_def contact_of_def send_to_contacts_def
      has_valid_email_def summary_mail_def interp_def Let_def split: option.splits sum.splits)

lemma sent_independent:
  "sent (shareSummary u db now fmt send order) = sent (shareSummary u db now fmt send' order')"
  "sent (mailEmergencyContacts u contacts db' now send order) = sent (mailEmergencyContacts u contacts db' now send' order')"
proof -
  have *: "sent (send_to_contacts u report cs s race) = map (summary_mail u report) (filter has_valid_email cs)" for report cs s race
    by (simp add: send_to_contacts_def Let_def split: option.splits sum.splits)
  show "sent (shareSummary u db now fmt send order) = sent (shareSummary u db now fmt send' order')"
    by (simp add: shareSummary_def * split: lookup.splits option.splits)
  show "sent (mailEmergencyContacts u contacts db' now send order) = sent (mailEmergencyContacts u contacts db' now send' order')"
    by (simp add: mailEmergencyContacts_def catch_message_def Let_def split: lookup.splits option.splits)
qed

lemma mail_contacts_rejection:
  assumes "\<exists>m \<in> set (sent (mailEmergencyContacts u contacts db now send order)). \<exists>e. send m = Rejected e"
  shows "\<exists>m \<in> set (sent (mailEmergencyContacts u contacts db now send order)). \<exists>e. send m = Rejected e \<and>
           reply (mailEmergencyContacts u contacts db now send order) =
             (case get_prop e ''message'' of Inl t \<Rightarrow> Escaped t | Inr msg \<Rightarrow> Reply 500 (JObj [(''error'', msg)]))"
proof -
  let ?ms = "sent (mailEmergencyContacts u contacts db now send order)"
  from assms have ne: "?ms \<noteq> []" by auto
  then obtain p meds where db: "db = Found (p, meds)"
    by (cases db) (auto simp: mailEmergencyContacts_def catch_message_def Let_def split: if_splits)
  from ne have guard: "\<not> (\<not> truthy contacts \<or> \<not> isArray contacts \<or> length (items contacts) = 0)"
    "length (filter is_email_entry (items contacts)) \<noteq> 0"
    by (auto simp: mailEmergencyContacts_def Let_def split: if_splits)
  from assms have "\<exists>s \<in> set (map send ?ms). \<exists>e. s = Rejected e"
    by auto
  then obtain e where e: "first_rejection order (map send ?ms) = Some e" "Rejected e \<in> set (map send ?ms)"
    using first_rejection_Some by blast
  then obtain m where m: "m \<in> set ?ms" "send m = Rejected e"
    by auto
  have ms: "?ms = map (\<lambda>email. \<lparr>recipient = text_of email, subject = stethoscope @ '' Emergency Medical Info'',
                 text_body = mailEmergencyContacts_text u p meds now\<rparr>) (filter is_email_entry (items contacts))"
    using guard db by (simp add: mailEmergencyContacts_def Let_def split: option.splits)
  have "reply (mailEmergencyContacts u contacts db now send order) =
          (case get_prop e ''message'' of Inl t \<Rightarrow> Escaped t | Inr msg \<Rightarrow> Reply 500 (JObj [(''error'', msg)]))"
    using guard db e(1) unfolding ms
    by (simp add: mailEmergencyContacts_def Let_def catch_message_def)
  with m show ?thesis by blast
qed

lemma sample_outcomes [simp]:
  "delivered (accepting m)" "\<not> failed (accepting m)"
  "failed (rejecting m)" "\<not> delivered (rejecting m)"
  "reason (rejecting m) = JStr ''mailbox unavailable''"
  by (simp_all add: delivered_def failed_def reason_def accepting_def rejecting_def no_error_def)

text \<open>
  What a rejection does to a delivery. The messages handed to the collaborator do not
  depend on how it answers: no rejection keeps another recipient from its attempt, in
  either handler. In \<open>shareSummary\<close>, when every send is delivered or has failed in the
  sense above and one at least is delivered, the call answers 200, each recipient whose
  send failed has its own entry in \<open>failures\<close> and only the others are in \<open>sentTo\<close>.
  In \<open>mailEmergencyContacts\<close>, as soon as one send rejects, the whole call answers 500
  with the message of a rejection (or the exception escapes, when that message cannot be
  read).
\<close>

lemma rejections_and_the_reply:
  "sent (shareSummary u db now fmt send order) = sent (shareSummary u db now fmt send' order') \<and>
   sent (mailEmergencyContacts u contacts db' now send order) = sent (mailEmergencyContacts u contacts db' now send' order') \<and>
   ((\<forall>m \<in> set (sent (shareSummary u db now fmt send order)). delivered (send m) \<or> failed (send m)) \<longrightarrow>
    (\<exists>m \<in> set (sent (shareSummary u db now fmt send order)). delivered (send m)) \<longrightarrow>
      reply (shareSummary u db now fmt send order) =
        Reply 200 (JObj
          [(''success'', JBool True),
           (''message'', JStr ''Health summary shared with emergency contacts''),
           (''sentTo'', JArr (map (\<lambda>m. JStr (recipient m))
                               (filter (\<lambda>m. delivered (send m)) (sent (shareSummary u db now fmt send order))))),
           (''failures'',
              if filter (\<lambda>m. failed (send m)) (sent (shareSummary u db now fmt send order)) = [] then JUndefined
              else JArr (map (failure_entry send)
                           (filter (\<lambda>m. failed (send m)) (sent (shareSummary u db now fmt send order)))))])) \<and>
   ((\<exists>m \<in> set (sent (mailEmergencyContacts u contacts db' now send order)). \<exists>e. send m = Rejected e) \<longrightarrow>
    (\<exists>m \<in> set (sent (mailEmergencyContacts u contacts db' now send order)). \<exists>e. send m = Rejected e \<and>
       reply (mailEmergencyContacts u contacts db' now send order) =
         (case get_prop e ''message'' of Inl t \<Rightarrow> Escaped t | Inr msg \<Rightarrow> Reply 500 (JObj [(''error'', msg)]))))"
proof (intro conjI impI)
  show "sent (shareSummary u db now fmt send order) = sent (shareSummary u db now fmt send' order')"
    by (rule sent_independent)
  show "sent (mailEmergencyContacts u contacts db' now send order) = sent (mailEmergencyContacts u contacts db' now send' order')"
    by (rule sent_independent)
next
  let ?ms = "sent (shareSummary u db now fmt send order)"
  assume wb: "\<forall>m \<in> set ?ms. delivered (send m) \<or> failed (send m)"
    and some: "\<exists>m \<in> set ?ms. delivered (send m)"
  then have ne: "?ms \<noteq> []" and S: "filter (\<lambda>m. delivered (send m)) ?ms \<noteq> []"
    by (auto simp: filter_empty_conv)
  from S show "reply (shareSummary u db now fmt send order) =
        Reply 200 (JObj
          [(''success'', JBool True),
           (''message'', JStr ''Health summary shared with emergency contacts''),
           (''sentTo'', JArr (map (\<lambda>m. JStr (recipient m))
                               (filter (\<lambda>m. delivered (send m)) (sent (shareSummary u db now fmt send order))))),
           (''failures'',
              if filter (\<lambda>m. failed (send m)) (sent (shareSummary u db now fmt send order)) = [] then JUndefined
              else JArr (map (failure_entry send)
                           (filter (\<lambda>m. failed (send m)) (sent (shareSummary u db now fmt send order)))))])"
    by (simp add: summary_outcome(1) [OF wb ne])
next
  assume "\<exists>m \<in> set (sent (mailEmergencyContacts u contacts db' now send order)). \<exists>e. send m = Rejected e"
  then show "\<exists>m \<in> set (sent (mailEmergencyContacts u contacts db' now send order)). \<exists>e. send m = Rejected e \<and>
       reply (mailEmergencyContacts u contacts db' now send order) =
         (case get_prop e ''message'' of Inl t \<Rightarrow> Escaped t | Inr msg \<Rightarrow> Reply 500 (JObj [(''error'', msg)]))"
    by (rule mail_contacts_rejection)
qed

text \<open>
  C1. A rejection for one recipient is to become a failure of that recipient only and
  must not fail the call. \<open>shareSummary\<close> does so; \<open>mailEmergencyContacts\<close> does not:
  of two recipients the first is rejected, both get their attempt, and the call as a
  whole answers 500 with the message of that one rejection, in whatever order the two
  sends settle.
\<close>

theorem one_rejection_fails_mail_contacts:
  "reply (mailEmergencyContacts sample_user (JArr [JStr ''a@x.com'', JStr ''b@x.com'']) (Found (None, [])) ''now''
            (rejecting_for ''a@x.com'') order) =
     Reply 500 (JObj [(''error'', JStr ''mailbox unavailable'')]) \<and>
   map recipient (sent (mailEmergencyContacts sample_user (JArr [JStr ''a@x.com'', JStr ''b@x.com''])
                          (Found (None, [])) ''now'' (rejecting_for ''a@x.com'') order)) =
     [''a@x.com'', ''b@x.com'']"
proof -
  let ?ms = "[\<lparr>recipient = ''a@x.com'', subject = stethoscope @ '' Emergency Medical Info'',
               text_body = mailEmergencyContacts_text sample_user None [] ''now''\<rparr>,
              \<lparr>recipient = ''b@x.com'', subject = stethoscope @ '' Emergency Medical Info'',
               text_body = mailEmergencyContacts_text sample_user None [] ''now''\<rparr>]"
  have settled: "map (rejecting_for ''a@x.com'') ?ms =
                 [Rejected (JError ''mailbox unavailable''), Fulfilled (JObj [(''messageId'', JStr ''1'')])]"
    by (simp add: rejecting_for_def rejecting_def accepting_def)
  then have "\<exists>e. first_rejection order (map (rejecting_for ''a@x.com'') ?ms) = Some e \<and>
                 Rejected e \<in> set (map (rejecting_for ''a@x.com'') ?ms)"
    by (intro first_rejection_Some) simp
  then have "first_rejection order (map (rejecting_for ''a@x.com'') ?ms) = Some (JError ''mailbox unavailable'')"
    unfolding settled by auto
  then show ?thesis
    by (simp add: mailEmergencyContacts_def isArray_def items_def is_email_entry_def text_of_def Let_def
        catch_message_def)
qed

theorem one_rejection_fails_mail_contacts_witness:
  "reply (mailEmergencyContacts sample_user (JArr [JStr ''a@x.com'', JStr ''b@x.com'']) (Found (None, [])) ''now''
            (rejecting_for ''a@x.com'') [Suc 0, 0]) \<noteq>
     Reply 200 (JObj [(''message'', JStr ''Emergency info sent successfully.''),
                      (''recipients'', JArr [JStr ''a@x.com'', JStr ''b@x.com''])])"
  using one_rejection_fails_mail_contacts by simp

subsection \<open>Every delivery fails\<close>

text \<open>
  C2, as the code has it. When the send has failed for every recipient, \<open>shareSummary\<close>
  answers 500 with a fixed message; the reasons, one entry for each recipient, are
  written to the error log and are not part of the reply.
\<close>

theorem total_failure_reply:
  "sent (shareSummary u db now fmt send order) \<noteq> [] \<longrightarrow>
   (\<forall>m \<in> set (sent (shareSummary u db now fmt send order)). failed (send m)) \<longrightarrow>
     reply (shareSummary u db now fmt send order) =
       Reply 500 (JObj [(''success'', JBool False),
                        (''error'', JStr ''Failed to send summary email. Please try again.'')]) \<and>
     logged (shareSummary u db now fmt send order) =
       [(''Failed to send to some contacts:'',
           JArr (map (failure_entry send) (sent (shareSummary u db now fmt send order)))),
        (''Email sending error:'', JError ''Failed to send emails to all contacts'')] \<and>
     length (map (failure_entry send) (sent (shareSummary u db now fmt send order))) =
       length (sent (shareSummary u db now fmt send order))"
proof (intro impI)
  let ?ms = "sent (shareSummary u db now fmt send order)"
  assume ne: "?ms \<noteq> []" and all: "\<forall>m \<in> set ?ms. failed (send m)"
  then have wb: "\<forall>m \<in> set ?ms. delivered (send m) \<or> failed (send m)"
    by blast
  from all have S: "filter (\<lambda>m. delivered (send m)) ?ms = []"
    using delivered_not_failed by (auto simp: filter_empty_conv)
  from all have F: "filter (\<lambda>m. failed (send m)) ?ms = ?ms"
    by simp
  show "reply (shareSummary u db now fmt send order) =
       Reply 500 (JObj [(''success'', JBool False),
                        (''error'', JStr ''Failed to send summary email. Please try again.'')]) \<and>
     logged (shareSummary u db now fmt send order) =
       [(''Failed to send to some contacts:'',
           JArr (map (failure_entry send) (sent (shareSummary u db now fmt send order)))),
        (''Email sending error:'', JError ''Failed to send emails to all contacts'')] \<and>
     length (map (failure_entry send) (sent (shareSummary u db now fmt send order))) =
       length (sent (shareSummary u db now fmt send order))"
    using ne by (simp add: summary_outcome [OF wb ne] S F)
qed

theorem total_failure_reply_witness:
  "sent (shareSummary sample_user two_contacts ''now'' short_date rejecting [Suc 0, 0]) \<noteq> [] \<and>
   list_all (\<lambda>m. failed (rejecting m)) (sent (shareSummary sample_user two_contacts ''now'' short_date rejecting [Suc 0, 0])) \<and>
   reply (shareSummary sample_user two_contacts ''now'' short_date rejecting [Suc 0, 0]) =
     Reply 500 (JObj [(''success'', JBool False),
                      (''error'', JStr ''Failed to send summary email. Please try again.'')]) \<and>
   logged (shareSummary sample_user two_contacts ''now'' short_date rejecting [Suc 0, 0]) =
     [(''Failed to send to some contacts:'',
         JArr [JObj [(''email'', JStr ''a@x.com''), (''error'', JStr ''mailbox unavailable'')],
               JObj [(''email'', JStr ''b@x.com''), (''error'', JStr ''mailbox unavailable'')]]),
      (''Email sending error:'', JError ''Failed to send emails to all contacts'')]"
proof -
  obtain report where ms: "sent (shareSummary sample_user two_contacts ''now'' short_date rejecting [Suc 0, 0]) =
     [\<lparr>recipient = ''a@x.com'', subject = stethoscope @ '' Emergency Health Summary for '' @ interp (user_name sample_user), text_body = report\<rparr>,
      \<lparr>recipient = ''b@x.com'', subject = stethoscope @ '' Emergency Health Summary for '' @ interp (user_name sample_user), text_body = report\<rparr>]"
    using sent_two_contacts by blast
  show ?thesis
    using total_failure_reply [where u = sample_user and db = two_contacts and now = "''now''"
        and fmt = short_date and send = rejecting and order = "[Suc 0, 0]"]
    by (simp add: ms failure_entry_def)
qed

text \<open>
  C2 as it is stated fails: the reply to a delivery that failed for both recipients
  carries the fixed message and neither reason.
\<close>

theorem total_failure_body_has_no_reasons:
  "reply (shareSummary sample_user two_contacts ''now'' short_date rejecting [Suc 0, 0]) =
     Reply 500 (JObj [(''success'', JBool False),
                      (''error'', JStr ''Failed to send summary email. Please try again.'')])"
proof -
  obtain report where ms: "sent (shareSummary sample_user two_contacts ''now'' short_date rejecting [Suc 0, 0]) =
     [\<lparr>recipient = ''a@x.com'', subject = stethoscope @ '' Emergency Health Summary for '' @ interp (user_name sample_user), text_body = report\<rparr>,
      \<lparr>recipient = ''b@x.com'', subject = stethoscope @ '' Emergency Health Summary for '' @ interp (user_name sample_user), text_body = report\<rparr>]"
    using sent_two_contacts by blast
  have wb: "\<forall>m \<in> set (sent (shareSummary sample_user two_contacts ''now'' short_date rejecting [Suc 0, 0])).
              delivered (rejecting m) \<or> failed (rejecting m)"
    by simp
  have ne: "sent (shareSummary sample_user two_contacts ''now'' short_date rejecting [Suc 0, 0]) \<noteq> []"
    by (simp add: ms)
  have "filter (\<lambda>m. delivered (rejecting m)) (sent (shareSummary sample_user two_contacts ''now'' short_date rejecting [Suc 0, 0])) = []"
    by (simp add: filter_empty_conv)
  then show ?thesis
    by (simp add: summary_outcome(1) [OF wb ne])
qed

subsection \<open>Some deliveries fail\<close>

text \<open>
  When the promise of every send that succeeds fulfils with a value on which \<open>error\<close>
  can be read and is falsy (a result object, say), and every other send has failed in the
  sense above, a mixed outcome is answered with 200 and \<open>success: true\<close>; \<open>sentTo\<close>
  lists the recipients of the delivered sends, \<open>failures\<close> the entries of the failed
  ones with their reasons, in order, and the two lists together have one element for
  each recipient.
\<close>

lemma mixed_outcome_of_result_objects:
  "(\<forall>m \<in> set (sent (shareSummary u db now fmt send order)). delivered (send m) \<or> failed (send m)) \<longrightarrow>
   filter (\<lambda>m. delivered (send m)) (sent (shareSummary u db now fmt send order)) \<noteq> [] \<longrightarrow>
   filter (\<lambda>m. failed (send m)) (sent (shareSummary u db now fmt send order)) \<noteq> [] \<longrightarrow>
     reply (shareSummary u db now fmt send order) =
       Reply 200 (JObj
         [(''success'', JBool True),
          (''message'', JStr ''Health summary shared with emergency contacts''),
          (''sentTo'', JArr (map (\<lambda>m. JStr (recipient m))
                              (filter (\<lambda>m. delivered (send m)) (sent (shareSummary u db now fmt send order))))),
          (''failures'', JArr (map (failure_entry send)
                                (filter (\<lambda>m. failed (send m)) (sent (shareSummary u db now fmt send order)))))]) \<and>
     length (filter (\<lambda>m. delivered (send m)) (sent (shareSummary u db now fmt send order))) +
     length (filter (\<lambda>m. failed (send m)) (sent (shareSummary u db now fmt send order))) =
       length (sent (shareSummary u db now fmt send order))"
proof (intro impI conjI)
  let ?ms = "sent (shareSummary u db now fmt send order)"
  assume wb: "\<forall>m \<in> set ?ms. delivered (send m) \<or> failed (send m)"
    and S: "filter (\<lambda>m. delivered (send m)) ?ms \<noteq> []"
    and F: "filter (\<lambda>m. failed (send m)) ?ms \<noteq> []"
  from S have ne: "?ms \<noteq> []" by auto
  from S F show "reply (shareSummary u db now fmt send order) =
       Reply 200 (JObj
         [(''success'', JBool True),
          (''message'', JStr ''Health summary shared with emergency contacts''),
          (''sentTo'', JArr (map (\<lambda>m. JStr (recipient m))
                              (filter (\<lambda>m. delivered (send m)) (sent (shareSummary u db now fmt send order))))),
          (''failures'', JArr (map (failure_entry send)
                                (filter (\<lambda>m. failed (send m)) (sent (shareSummary u db now fmt send order)))))])"
    by (simp add: summary_outcome(1) [OF wb ne])
  from wb show "length (filter (\<lambda>m. delivered (send m)) ?ms) + length (filter (\<lambda>m. failed (send m)) ?ms) = length ?ms"
    by (rule count_split)
qed

lemma mixed_outcome_sample:
  "list_all (\<lambda>m. delivered (rejecting_for ''a@x.com'' m) \<or> failed (rejecting_for ''a@x.com'' m))
     (sent (shareSummary sample_user two_contacts ''now'' short_date (rejecting_for ''a@x.com'') [Suc 0, 0])) \<and>
   filter (\<lambda>m. delivered (rejecting_for ''a@x.com'' m))
     (sent (shareSummary sample_user two_contacts ''now'' short_date (rejecting_for ''a@x.com'') [Suc 0, 0])) \<noteq> [] \<and>
   filter (\<lambda>m. failed (rejecting_for ''a@x.com'' m))
     (sent (shareSummary sample_user two_contacts ''now'' short_date (rejecting_for ''a@x.com'') [Suc 0, 0])) \<noteq> [] \<and>
   reply (shareSummary sample_user two_contacts ''now'' short_date (rejecting_for ''a@x.com'') [Suc 0, 0]) =
     Reply 200 (JObj
       [(''success'', JBool True),
        (''message'', JStr ''Health summary shared with emergency contacts''),
        (''sentTo'', JArr [JStr ''b@x.com'']),
        (''failures'', JArr [JObj [(''email'', JStr ''a@x.com''), (''error'', JStr ''mailbox unavailable'')]])])"
proof -
  obtain report where ms: "sent (shareSummary sample_user two_contacts ''now'' short_date (rejecting_for ''a@x.com'') [Suc 0, 0]) =
     [\<lparr>recipient = ''a@x.com'', subject = stethoscope @ '' Emergency Health Summary for '' @ interp (user_name sample_user), text_body = report\<rparr>,
      \<lparr>recipient = ''b@x.com'', subject = stethoscope @ '' Emergency Health Summary for '' @ interp (user_name sample_user), text_body = report\<rparr>]"
    using sent_two_contacts by blast
  show ?thesis
    using mixed_outcome_of_result_objects [where u = sample_user and db = two_contacts and now = "''now''"
        and fmt = short_date and send = "rejecting_for ''a@x.com''" and order = "[Suc 0, 0]"]
    by (simp add: ms rejecting_for_def failure_entry_def)
qed

lemma failures_of_undefined:
  "JUndefined \<in> set rs \<Longrightarrow> \<exists>t. failures_of rs = Inl t"
proof (induction rs)
  case Nil
  then show ?case by simp
next
  case (Cons r rs)
  show ?case
  proof (cases "r = JUndefined")
    case True
    then show ?thesis by simp
  next
    case False
    with Cons obtain t where "failures_of rs = Inl t"
      by auto
    then show ?thesis
      by (cases "get_prop r ''error''") simp_all
  qed
qed

lemma void_result_fails:
  assumes "m \<in> set (map (summary_mail u report) (filter has_valid_email cs))"
    and "send m = Fulfilled JUndefined"
  shows "reply (send_to_contacts u report cs send order) =
           Reply 500 (JObj [(''success'', JBool False),
                            (''error'', JStr ''Failed to send summary email. Please try again.'')])"
proof -
  let ?ms = "map (summary_mail u report) (filter has_valid_email cs)"
  from assms(1) have ne: "length (filter has_valid_email cs) \<noteq> 0"
    by (auto simp: filter_empty_conv)
  show ?thesis
  proof (cases "first_rejection order (map (attempt send) ?ms)")
    case (Some t)
    with ne show ?thesis
      by (simp add: send_to_contacts_def Let_def send_failed_def)
  next
    case None
    from assms have "fulfilment (attempt send m) = JUndefined"
      by (simp add: caught_def fulfilment_def)
    with assms(1) have "JUndefined \<in> set (map fulfilment (map (attempt send) ?ms))"
      by force
    then obtain t where "failures_of (map fulfilment (map (attempt send) ?ms)) = Inl t"
      using failures_of_undefined by blast
    with ne None show ?thesis
      by (simp add: send_to_contacts_def Let_def send_failed_def)
  qed
qed

text \<open>
  C3. A delivery in which some sends succeed and the others fail is to be answered with
  200, the recipients of the first in \<open>sentTo\<close> and those of the second in \<open>failures\<close>.
  With a collaborator whose promise fulfils with \<open>undefined\<close> when the send succeeds (the
  \<open>void\<close> of its contract), \<open>shareSummary\<close> does not: as soon as the send to one valid
  address succeeds, reading \<open>error\<close> on its result throws, and the call answers 500 with
  the fixed message, whatever happens to the other recipients, all of whom got their
  attempt.
\<close>

theorem void_success_fails_summary:
  "a \<in> set [e. c \<leftarrow> family_contacts fam, Some e \<leftarrow> [contact_email c], CHR ''@'' \<in> set e] \<longrightarrow>
   (\<forall>m. recipient m = a \<longrightarrow> send m = Fulfilled JUndefined) \<longrightarrow>
     reply (shareSummary u (Found (p, meds, fam, vs)) now fmt send order) =
       Reply 500 (JObj [(''success'', JBool False),
                        (''error'', JStr ''Failed to send summary email. Please try again.'')]) \<and>
     map recipient (sent (shareSummary u (Found (p, meds, fam, vs)) now fmt send order)) =
       [e. c \<leftarrow> family_contacts fam, Some e \<leftarrow> [contact_email c], CHR ''@'' \<in> set e]"
proof (intro impI conjI)
  show "map recipient (sent (shareSummary u (Found (p, meds, fam, vs)) now fmt send order)) =
       [e. c \<leftarrow> family_contacts fam, Some e \<leftarrow> [contact_email c], CHR ''@'' \<in> set e]"
    by (simp only: sent_shareSummary valid_contacts)
next
  assume a: "a \<in> set [e. c \<leftarrow> family_contacts fam, Some e \<leftarrow> [contact_email c], CHR ''@'' \<in> set e]"
    and void: "\<forall>m. recipient m = a \<longrightarrow> send m = Fulfilled JUndefined"
  from a have "a \<in> set (map (\<lambda>c. interp (contact_email c)) (filter has_valid_email (family_contacts fam)))"
    by (simp only: valid_contacts)
  then obtain c where c: "c \<in> set (filter has_valid_email (family_contacts fam))" "interp (contact_email c) = a"
    by auto
  then have "family_contacts fam \<noteq> []"
    by auto
  then obtain f cs where f: "fam = Some f" "emergency_contacts f = Some cs" "cs \<noteq> []" "family_contacts fam = cs"
    by (auto simp: family_contacts_def split: option.splits)
  let ?report = "summaryText u p meds (family_name f) cs (Vital_find_latest vs) now fmt"
  from f have eq: "shareSummary u (Found (p, meds, fam, vs)) now fmt send order = send_to_contacts u ?report cs send order"
    by (simp add: shareSummary_def)
  from c f(4) have "summary_mail u ?report c \<in> set (map (summary_mail u ?report) (filter has_valid_email cs))"
    by simp
  moreover from c(2) void have "send (summary_mail u ?report c) = Fulfilled JUndefined"
    by (simp add: summary_mail_def)
  ultimately show "reply (shareSummary u (Found (p, meds, fam, vs)) now fmt send order) =
       Reply 500 (JObj [(''success'', JBool False),
                        (''error'', JStr ''Failed to send summary email. Please try again.'')])"
    unfolding eq by (rule void_result_fails)
qed

theorem void_success_fails_summary_witness:
  "reply (shareSummary sample_user
            (Found (None, [], Some (family_of [contact_of ''A'' (Some ''a@x.com''), contact_of ''B'' (Some ''b@x.com'')]), []))
            ''now'' short_date (void_rejecting_for ''b@x.com'') [Suc 0, 0]) =
     Reply 500 (JObj [(''success'', JBool False),
                      (''error'', JStr ''Failed to send summary email. Please try again.'')]) \<and>
   map recipient (sent (shareSummary sample_user
            (Found (None, [], Some (family_of [contact_of ''A'' (Some ''a@x.com''), contact_of ''B'' (Some ''b@x.com'')]), []))
            ''now'' short_date (void_rejecting_for ''b@x.com'') [Suc 0, 0])) =
     [''a@x.com'', ''b@x.com''] \<and>
   void_rejecting_for ''b@x.com'' \<lparr>recipient = ''a@x.com'', subject = ''s'', text_body = ''t''\<rparr> = Fulfilled JUndefined \<and>
   void_rejecting_for ''b@x.com'' \<lparr>recipient = ''b@x.com'', subject = ''s'', text_body = ''t''\<rparr> =
     Rejected (JError ''mailbox unavailable'')"
proof -
  let ?fam = "Some (family_of [contact_of ''A'' (Some ''a@x.com''), contact_of ''B'' (Some ''b@x.com'')])"
  have e: "[e. c \<leftarrow> family_contacts ?fam, Some e \<leftarrow> [contact_email c], CHR ''@'' \<in> set e] = [''a@x.com'', ''b@x.com'']"
    by (simp add: family_contacts_def family_of_def contact_of_def)
  have a: "''a@x.com'' \<in> set [''a@x.com'', ''b@x.com'']"
    by simp
  have void: "\<forall>m. recipient m = ''a@x.com'' \<longrightarrow> void_rejecting_for ''b@x.com'' m = Fulfilled JUndefined"
    by (simp add: void_rejecting_for_def)
  note t = void_success_fails_summary [where a = "''a@x.com''" and fam = ?fam and send = "void_rejecting_for ''b@x.com''"
      and u = sample_user and p = None and meds = "[]" and vs = "[]" and now = "''now''" and fmt = short_date
      and order = "[Suc 0, 0]"]
  from t a void have "reply (shareSummary sample_user (Found (None, [], ?fam, [])) ''now'' short_date (void_rejecting_for ''b@x.com'') [Suc 0, 0]) =
       Reply 500 (JObj [(''success'', JBool False),
                        (''error'', JStr ''Failed to send summary email. Please try again.'')]) \<and>
     map recipient (sent (shareSummary sample_user (Found (None, [], ?fam, [])) ''now'' short_date (void_rejecting_for ''b@x.com'') [Suc 0, 0])) =
       [''a@x.com'', ''b@x.com'']"
    unfolding e by blast
  then show ?thesis
    by (simp add: void_rejecting_for_def rejecting_def)
qed

subsection \<open>Sharing with one contact\<close>

lemma find_first:
  assumes "\<forall>x \<in> set pre. \<not> P x" "P c"
  shows "find P (pre @ c # post) = Some c"
  using assms by (induction pre) simp_all

lemma find_none: "\<forall>x \<in> set xs. \<not> P x \<Longrightarrow> find P xs = None"
  by (simp add: find_None_iff)

text \<open>
  When the contact list can be searched (there is no family document, or the document has
  its list), and the contact id matches no contact or the first contact it matches has no
  e-mail address, the handler uses \<open>DEFAULT_EMERGENCY_EMAIL\<close>. If that value is set and
  not empty, the one message the collaborator gets is addressed to it, and when that send
  is fulfilled the reply is 200 and names the address in \<open>sharedWith\<close>. If it is unset
  or empty, the reply is 400 and nothing is sent.
\<close>

lemma default_address_used:
  assumes "fam = None \<or>
           (\<exists>f cs. fam = Some f \<and> emergency_contacts f = Some cs \<and>
              ((\<forall>c \<in> set cs. contact_id c \<noteq> Some contactId) \<or>
               (\<exists>pre c post. cs = pre @ c # post \<and> (\<forall>x \<in> set pre. contact_id x \<noteq> Some contactId) \<and>
                              contact_id c = Some contactId \<and> falsy_text (contact_email c))))"
  shows "dflt = Some d \<and> d \<noteq> [] \<longrightarrow>
           sent (shareEmergencyInfo u contactId (Found (fam, p, meds)) dflt send) =
             [\<lparr>recipient = d, subject = ''Emergency Medical Info'',
               text_body = shareEmergencyInfo_text u p meds d\<rparr>] \<and>
           (\<forall>v. send \<lparr>recipient = d, subject = ''Emergency Medical Info'',
                       text_body = shareEmergencyInfo_text u p meds d\<rparr> = Fulfilled v \<longrightarrow>
              reply (shareEmergencyInfo u contactId (Found (fam, p, meds)) dflt send) =
                Reply 200 (JObj [(''message'', JStr ''Emergency info emailed successfully''),
                                 (''sharedWith'', JStr d)]))"
    and "falsy_text dflt \<longrightarrow>
           shareEmergencyInfo u contactId (Found (fam, p, meds)) dflt send =
             \<lparr>reply = Reply 400 (JObj [(''error'', JStr ''Emergency contact email not found.'')]),
              sent = [], logged = []\<rparr>"
proof -
  from assms have "\<exists>c. find_contact fam contactId = Inr c \<and> contact_email_or_default c dflt = dflt"
  proof (elim disjE exE conjE)
    assume "fam = None"
    then show ?thesis
      by (simp add: find_contact_def contact_email_or_default_def)
  next
    fix f cs
    assume f: "fam = Some f" "emergency_contacts f = Some cs"
      and "\<forall>c \<in> set cs. contact_id c \<noteq> Some contactId"
    then have "find (\<lambda>c. contact_id c = Some contactId) cs = None"
      by (intro find_none) simp
    with f show ?thesis
      by (simp add: find_contact_def contact_email_or_default_def)
  next
    fix f cs pre c post
    assume f: "fam = Some f" "emergency_contacts f = Some cs"
      and cs: "cs = pre @ c # post" "\<forall>x \<in> set pre. contact_id x \<noteq> Some contactId"
        "contact_id c = Some contactId" "falsy_text (contact_email c)"
    from cs(2,3) have "find (\<lambda>c. contact_id c = Some contactId) (pre @ c # post) = Some c"
      by (intro find_first) simp_all
    with f cs(1,4) show ?thesis
      by (auto simp: find_contact_def contact_email_or_default_def falsy_text_def)
  qed
  then obtain c where c: "find_contact fam contactId = Inr c" "contact_email_or_default c dflt = dflt"
    by blast
  show "dflt = Some d \<and> d \<noteq> [] \<longrightarrow>
           sent (shareEmergencyInfo u contactId (Found (fam, p, meds)) dflt send) =
             [\<lparr>recipient = d, subject = ''Emergency Medical Info'',
               text_body = shareEmergencyInfo_text u p meds d\<rparr>] \<and>
           (\<forall>v. send \<lparr>recipient = d, subject = ''Emergency Medical Info'',
                       text_body = shareEmergencyInfo_text u p meds d\<rparr> = Fulfilled v \<longrightarrow>
              reply (shareEmergencyInfo u contactId (Found (fam, p, meds)) dflt send) =
                Reply 200 (JObj [(''message'', JStr ''Emergency info emailed successfully''),
                                 (''sharedWith'', JStr d)]))"
    using c
    by (cases "send \<lparr>recipient = d, subject = ''Emergency Medical Info'',
                     text_body = shareEmergencyInfo_text u p meds d\<rparr>")
       (auto simp: shareEmergencyInfo_def Let_def catch_message_def split: sum.splits)
  show "falsy_text dflt \<longrightarrow>
           shareEmergencyInfo u contactId (Found (fam, p, meds)) dflt send =
             \<lparr>reply = Reply 400 (JObj [(''error'', JStr ''Emergency contact email not found.'')]),
              sent = [], logged = []\<rparr>"
    using c by (auto simp: shareEmergencyInfo_def falsy_text_def)
qed

text \<open>
  The text of that message: the template without the white space around it, when the
  address does not end in white space. White space at the end of the address goes with
  the rest, a no-break space as well.
\<close>

lemma no_space_after_text:
  assumes "\<forall>w \<in> set white_space. \<not> suffix w d" "d \<noteq> []" "t \<noteq> []" "last t = CHR '' ''"
  shows "\<forall>w \<in> set white_space. \<not> suffix w (t @ d)"
proof (intro ballI notI)
  fix w assume w: "w \<in> set white_space" "suffix w (t @ d)"
  then have "suffix w d \<or> (\<exists>w'. suffix w' t \<and> w = w' @ d)"
    by (auto simp: suffix_append)
  with assms(1) w(1) obtain w' where w': "suffix w' t" "w = w' @ d"
    by blast
  with assms(1) w(1) have ne: "w' \<noteq> []"
    by auto
  with w'(1) have "last w' = last t"
    by (auto simp: suffix_def)
  with ne assms(4) have "CHR '' '' \<in> set w'"
    by (metis last_in_set)
  with w'(2) assms(2) have "CHR '' '' \<in> set (butlast w)"
    by (simp add: butlast_append)
  moreover have "\<forall>w \<in> set white_space. CHR '' '' \<notin> set (butlast w)"
    by (simp add: white_space_def)
  ultimately show False
    using w(1) by blast
qed

lemma shareEmergencyInfo_text_plain:
  assumes "d \<noteq> []" "\<forall>w \<in> set white_space. \<not> suffix w d"
  shows "shareEmergencyInfo_text u p meds d =
     ''Emergency Information for '' @ interp (user_name u) @ ''\<newline>'' @
     ''\<newline>'' @
     ''Blood Group: '' @ profile_str_or p blood_group ''Not Provided'' @ ''\<newline>'' @
     ''Allergies: '' @ profile_join_or p allergies '', '' ''None'' @ ''\<newline>'' @
     ''Existing Conditions: '' @ profile_join_or p existing_conditions '', '' ''None'' @ ''\<newline>'' @
     ''\<newline>'' @
     ''Medications:\<newline>'' @
     medication_lines meds @ ''\<newline>'' @
     ''\<newline>'' @
     ''Sent to: '' @ d"
proof -
  let ?t = "''Emergency Information for '' @ interp (user_name u) @ ''\<newline>'' @
     ''\<newline>'' @
     ''Blood Group: '' @ profile_str_or p blood_group ''Not Provided'' @ ''\<newline>'' @
     ''Allergies: '' @ profile_join_or p allergies '', '' ''None'' @ ''\<newline>'' @
     ''Existing Conditions: '' @ profile_join_or p existing_conditions '', '' ''None'' @ ''\<newline>'' @
     ''\<newline>'' @
     ''Medications:\<newline>'' @
     medication_lines meds @ ''\<newline>'' @
     ''\<newline>'' @
     ''Sent to: ''"
  have tx: "shareEmergencyInfo_text u p meds d = trim (''\<newline>'' @ (?t @ d) @ ''\<newline>    '')"
    by (simp add: shareEmergencyInfo_text_def)
  have "?t \<noteq> []" "last ?t = CHR '' ''"
    by simp_all
  with assms have rear: "\<forall>w \<in> set white_space. \<not> suffix w (?t @ d)"
    by (intro no_space_after_text)
  have "?t @ d \<noteq> []" "\<forall>w \<in> set white_space. hd w \<noteq> hd (?t @ d)"
    by (simp_all add: white_space_def)
  then have front: "\<forall>w \<in> set white_space. \<not> prefix w (?t @ d)"
    by (rule no_space_in_front)
  have "trim (''\<newline>'' @ (?t @ d) @ ''\<newline>    '') = ?t @ d"
    using front rear by (intro trim_framed) (simp_all add: ascii_space_def)
  with tx show ?thesis
    by simp
qed

lemma no_break_space_trimmed:
  "trim (''\<newline>Sent to: help@example.org'' @ [CHR 0xC2, CHR 0xA0] @ ''\<newline>    '') = ''Sent to: help@example.org''"
  by (simp add: trim_def trimStart_def trimEnd_def white_space_def strip_front.simps)

lemma default_address_sample:
  "shareEmergencyInfo sample_user ''Z'' (Found (Some (family_of [contact_of ''A'' (Some ''a@x.com'')]), None, []))
     (Some ''help@example.org'') accepting =
     \<lparr>reply = Reply 200 (JObj [(''message'', JStr ''Emergency info emailed successfully''),
                               (''sharedWith'', JStr ''help@example.org'')]),
      sent = [\<lparr>recipient = ''help@example.org'', subject = ''Emergency Medical Info'',
               text_body = ''Emergency Information for Asha\<newline>'' @
                           ''\<newline>'' @
                           ''Blood Group: Not Provided\<newline>'' @
                           ''Allergies: None\<newline>'' @
                           ''Existing Conditions: None\<newline>'' @
                           ''\<newline>'' @
                           ''Medications:\<newline>'' @
                           ''None\<newline>'' @
                           ''\<newline>'' @
                           ''Sent to: help@example.org''\<rparr>],
      logged = []\<rparr>"
proof -
  have "\<forall>w \<in> set white_space. \<not> suffix w ''help@example.org''"
    by (intro no_space_at_end) (simp_all add: white_space_def)
  then have "shareEmergencyInfo_text sample_user None [] ''help@example.org'' =
     ''Emergency Information for Asha\<newline>'' @ ''\<newline>'' @ ''Blood Group: Not Provided\<newline>'' @
     ''Allergies: None\<newline>'' @ ''Existing Conditions: None\<newline>'' @ ''\<newline>'' @
     ''Medications:\<newline>'' @ ''None\<newline>'' @ ''\<newline>'' @ ''Sent to: help@example.org''"
    by (simp add: shareEmergencyInfo_text_plain sample_user_def interp_def profile_str_or_def
        profile_join_or_def medication_lines_def)
  then show ?thesis
    by (simp add: shareEmergencyInfo_def find_contact_def family_of_def contact_of_def
        contact_email_or_default_def accepting_def Let_def)
qed

text \<open>
  C10. A contact id that matches no emergency contact of the family is to fall back to
  \<open>DEFAULT_EMERGENCY_EMAIL\<close>. For a family document whose contact list is unset the
  handler does not: the search of the list throws, the handler answers 500 with the
  message of the \<open>TypeError\<close>, and nothing is sent, whatever the default address is.
\<close>

theorem missing_contact_list_fails_share:
  "emergency_contacts f = None \<longrightarrow>
     shareEmergencyInfo u contactId (Found (Some f, p, meds)) dflt send =
       \<lparr>reply = Reply 500 (JObj [(''error'',
                  JStr (''Cannot read properties of undefined (reading '' @ [CHR 0x27] @ ''find'' @ [CHR 0x27] @ '')''))]),
        sent = [],
        logged = [(cross_mark @ '' shareEmergencyInfo error:'',
                   JError (''Cannot read properties of undefined (reading '' @ [CHR 0x27] @ ''find'' @ [CHR 0x27] @ '')''))]\<rparr>"
  by (simp add: shareEmergencyInfo_def find_contact_def catch_message_def type_error_reading_def Let_def)

theorem missing_contact_list_fails_share_witness:
  "emergency_contacts \<lparr>family_name = Some ''Rao'', emergency_contacts = None\<rparr> = None \<and>
   reply (shareEmergencyInfo sample_user ''A''
            (Found (Some \<lparr>family_name = Some ''Rao'', emergency_contacts = None\<rparr>, None, []))
            (Some ''help@example.org'') accepting) =
     Reply 500 (JObj [(''error'',
        JStr (''Cannot read properties of undefined (reading '' @ [CHR 0x27] @ ''find'' @ [CHR 0x27] @ '')''))]) \<and>
   sent (shareEmergencyInfo sample_user ''A''
            (Found (Some \<lparr>family_name = Some ''Rao'', emergency_contacts = None\<rparr>, None, []))
            (Some ''help@example.org'') accepting) = []"
  using missing_contact_list_fails_share [where f = "\<lparr>family_name = Some ''Rao'', emergency_contacts = None\<rparr>"
      and u = sample_user and contactId = "''A''" and p = None and meds = "[]"
      and dflt = "Some ''help@example.org''" and send = accepting]
  by simp

subsection \<open>The browser client\<close>

lemma request_fetched:
  "request baseURL endpoint options (Inr token) fetch =
     Inr (case request_try (fetched baseURL endpoint options token fetch) of Inl e \<Rightarrow> request_catch e | Inr r \<Rightarrow> r)"
  by (simp add: request_def fetched_def Let_def split: sum.splits)

text \<open>
  When reading the token throws, the exception is outside the \<open>try\<close> and the promise of
  \<open>request\<close> rejects with it.
\<close>

lemma request_rejects_without_storage:
  "request baseURL endpoint options (Inl e) fetch = Inl e"
  by (simp add: request_def)

text \<open>
  C9, as the code has it. Once the token has been read, \<open>request\<close> never rejects: it
  fulfils with a response object, which has \<open>success: true\<close> exactly for a response with
  a status from 200 to 299 whose body parses, and then carries the parsed data. Otherwise
  it has \<open>success: false\<close> and an \<open>error\<close>:
  \<^item> for a response that is not ok and whose body is an object, the \<open>error\<close> member of
    the body when that is truthy, whatever its type, and the text
    \<open>HTTP status: statusText\<close> when it is missing or falsy;
  \<^item> that same text for a body that is a boolean, a number, a string or an array;
  \<^item> for a body that is null, the message of the \<open>TypeError\<close> of reading \<open>error\<close> on it;
  \<^item> when \<open>fetch\<close> rejects or the body cannot be parsed, the message of the \<open>Error\<close>
    thrown, which may be empty, and \<open>Network error\<close> when what was thrown is no \<open>Error\<close>.
\<close>

theorem request_normalises:
  "(\<exists>r. request baseURL endpoint options (Inr token) fetch = Inr r \<and>
        (success r \<longleftrightarrow>
           (\<exists>status statusText d. fetched baseURL endpoint options token fetch = Response status statusText (Parsed d) \<and>
                                   200 \<le> status \<and> status \<le> 299))) \<and>
   (\<forall>status statusText d.
      fetched baseURL endpoint options token fetch = Response status statusText (Parsed d) \<longrightarrow>
      200 \<le> status \<and> status \<le> 299 \<longrightarrow>
        request baseURL endpoint options (Inr token) fetch = Inr \<lparr>success = True, data = Some d, error = None\<rparr>) \<and>
   (\<forall>status statusText kvs.
      fetched baseURL endpoint options token fetch = Response status statusText (Parsed (JObj kvs)) \<longrightarrow>
      \<not> (200 \<le> status \<and> status \<le> 299) \<longrightarrow>
        request baseURL endpoint options (Inr token) fetch =
          Inr \<lparr>success = False, data = None,
               error = Some (case map_of kvs ''error'' of
                               None \<Rightarrow> http_text status statusText
                             | Some e \<Rightarrow> if truthy e then e else http_text status statusText)\<rparr>) \<and>
   (\<forall>status statusText d.
      fetched baseURL endpoint options token fetch = Response status statusText (Parsed d) \<longrightarrow>
      \<not> (200 \<le> status \<and> status \<le> 299) \<longrightarrow>
      (\<exists>b. d = JBool b) \<or> (\<exists>n. d = JNum n) \<or> (\<exists>t. d = JStr t) \<or> (\<exists>xs. d = JArr xs) \<longrightarrow>
        request baseURL endpoint options (Inr token) fetch =
          Inr \<lparr>success = False, data = None, error = Some (http_text status statusText)\<rparr>) \<and>
   (\<forall>status statusText.
      fetched baseURL endpoint options token fetch = Response status statusText (Parsed JNull) \<longrightarrow>
      \<not> (200 \<le> status \<and> status \<le> 299) \<longrightarrow>
        request baseURL endpoint options (Inr token) fetch =
          Inr \<lparr>success = False, data = None,
               error = Some (JStr (''Cannot read properties of null (reading '' @ [CHR 0x27] @ ''error'' @ [CHR 0x27] @ '')''))\<rparr>) \<and>
   (\<forall>e. fetched baseURL endpoint options token fetch = NetworkFailure e \<or>
         (\<exists>status statusText. fetched baseURL endpoint options token fetch = Response status statusText (ParseFailure e)) \<longrightarrow>
        request baseURL endpoint options (Inr token) fetch =
          Inr \<lparr>success = False, data = None,
               error = Some (JStr (case e of JError m \<Rightarrow> m | _ \<Rightarrow> ''Network error''))\<rparr>)"
proof -
  let ?f = "fetched baseURL endpoint options token fetch"
  let ?r = "request baseURL endpoint options (Inr token) fetch"
  have r: "?r = Inr (case request_try ?f of Inl e \<Rightarrow> request_catch e | Inr r \<Rightarrow> r)"
    by (rule request_fetched)
  have thrown: "request_catch e = \<lparr>success = False, data = None,
               error = Some (JStr (case e of JError m \<Rightarrow> m | _ \<Rightarrow> ''Network error''))\<rparr>" for e
    by (cases e) (simp_all add: request_catch_def)
  have c1: "\<exists>r. ?r = Inr r \<and>
        (success r \<longleftrightarrow> (\<exists>status statusText d. ?f = Response status statusText (Parsed d) \<and> 200 \<le> status \<and> status \<le> 299))"
  proof (cases ?f)
    case (NetworkFailure e)
    then show ?thesis
      by (simp add: r request_try_def request_catch_def)
  next
    case (Response status statusText j)
    show ?thesis
    proof (cases j)
      case (ParseFailure e)
      with Response show ?thesis
        by (simp add: r request_try_def request_catch_def)
    next
      case (Parsed d)
      show ?thesis
      proof (cases "ok status")
        case True
        with Response Parsed show ?thesis
          by (simp add: r request_try_def ok_def)
      next
        case False
        with Response Parsed show ?thesis
          by (cases "get_prop d ''error''") (simp_all add: r request_try_def request_catch_def ok_def)
      qed
    qed
  qed
  have c2: "?r = Inr \<lparr>success = True, data = Some d, error = None\<rparr>"
    if "?f = Response status statusText (Parsed d)" "200 \<le> status \<and> status \<le> 299" for status statusText d
    using that by (simp add: r request_try_def ok_def)
  have c3: "?r = Inr \<lparr>success = False, data = None,
               error = Some (case map_of kvs ''error'' of
                               None \<Rightarrow> http_text status statusText
                             | Some e \<Rightarrow> if truthy e then e else http_text status statusText)\<rparr>"
    if "?f = Response status statusText (Parsed (JObj kvs))" "\<not> (200 \<le> status \<and> status \<le> 299)" for status statusText kvs
    using that by (cases "map_of kvs ''error''") (simp_all add: r request_try_def ok_def http_text_def)
  have c4: "?r = Inr \<lparr>success = False, data = None, error = Some (http_text status statusText)\<rparr>"
    if "?f = Response status statusText (Parsed d)" "\<not> (200 \<le> status \<and> status \<le> 299)"
      "(\<exists>b. d = JBool b) \<or> (\<exists>n. d = JNum n) \<or> (\<exists>t. d = JStr t) \<or> (\<exists>xs. d = JArr xs)" for status statusText d
    using that by (cases d) (simp_all add: r request_try_def ok_def http_text_def)
  have c5: "?r = Inr \<lparr>success = False, data = None,
               error = Some (JStr (''Cannot read properties of null (reading '' @ [CHR 0x27] @ ''error'' @ [CHR 0x27] @ '')''))\<rparr>"
    if "?f = Response status statusText (Parsed JNull)" "\<not> (200 \<le> status \<and> status \<le> 299)" for status statusText
    using that by (simp add: r request_try_def ok_def request_catch_def type_error_reading_def)
  have c6: "?r = Inr \<lparr>success = False, data = None,
               error = Some (JStr (case e of JError m \<Rightarrow> m | _ \<Rightarrow> ''Network error''))\<rparr>"
    if "?f = NetworkFailure e \<or> (\<exists>status statusText. ?f = Response status statusText (ParseFailure e))" for e
    using that by (auto simp: r request_try_def thrown)
  from c1 c2 c3 c4 c5 c6 show ?thesis
    by blast
qed

theorem request_normalises_witness:
  "request ''http://localhost:8000/api/v1'' ''/profile'' no_options (Inr None) profile_found =
     Inr \<lparr>success = True, data = Some (JObj [(''blood_group'', JStr ''O+'')]), error = None\<rparr> \<and>
   request ''http://localhost:8000/api/v1'' ''/profile'' no_options (Inr None) refused =
     Inr \<lparr>success = False, data = None, error = Some (JStr ''Unauthorized request'')\<rparr> \<and>
   request ''http://localhost:8000/api/v1'' ''/profile'' no_options (Inr None) not_found =
     Inr \<lparr>success = False, data = None, error = Some (JStr ''HTTP 404: Not Found'')\<rparr> \<and>
   request ''http://localhost:8000/api/v1'' ''/profile'' no_options (Inr None) null_body =
     Inr \<lparr>success = False, data = None,
          error = Some (JStr (''Cannot read properties of null (reading '' @ [CHR 0x27] @ ''error'' @ [CHR 0x27] @ '')''))\<rparr> \<and>
   request ''http://localhost:8000/api/v1'' ''/profile'' no_options (Inr None) offline =
     Inr \<lparr>success = False, data = None, error = Some (JStr ''Failed to fetch'')\<rparr> \<and>
   request ''http://localhost:8000/api/v1'' ''/profile'' no_options (Inr None) aborted =
     Inr \<lparr>success = False, data = None, error = Some (JStr ''Network error'')\<rparr>"
proof -
  let ?B = "''http://localhost:8000/api/v1''" and ?E = "''/profile''"
  have f: "fetched ?B ?E no_options None profile_found = Response 200 ''OK'' (Parsed (JObj [(''blood_group'', JStr ''O+'')]))"
    "fetched ?B ?E no_options None refused = Response 401 ''Unauthorized'' (Parsed (JObj [(''error'', JStr ''Unauthorized request'')]))"
    "fetched ?B ?E no_options None not_found = Response 404 ''Not Found'' (Parsed (JObj [(''message'', JStr ''no such route'')]))"
    "fetched ?B ?E no_options None null_body = Response 502 ''Bad Gateway'' (Parsed JNull)"
    "fetched ?B ?E no_options None offline = NetworkFailure (JError ''Failed to fetch'')"
    "fetched ?B ?E no_options None aborted = NetworkFailure (JStr ''cancelled by the caller'')"
    by (simp_all add: fetched_def profile_found_def refused_def not_found_def null_body_def offline_def aborted_def)
  have h: "http_text 404 ''Not Found'' = JStr ''HTTP 404: Not Found''"
    by (simp add: http_text_def)
  note t = request_normalises [where baseURL = ?B and endpoint = ?E and options = no_options and token = None]
  from t [where fetch = profile_found] f(1)
  have "request ?B ?E no_options (Inr None) profile_found =
     Inr \<lparr>success = True, data = Some (JObj [(''blood_group'', JStr ''O+'')]), error = None\<rparr>"
    by simp
  moreover from t [where fetch = refused] f(2)
  have "request ?B ?E no_options (Inr None) refused =
     Inr \<lparr>success = False, data = None, error = Some (JStr ''Unauthorized request'')\<rparr>"
    by simp
  moreover from t [where fetch = not_found] f(3) h
  have "request ?B ?E no_options (Inr None) not_found =
     Inr \<lparr>success = False, data = None, error = Some (JStr ''HTTP 404: Not Found'')\<rparr>"
    by simp
  moreover from t [where fetch = null_body] f(4)
  have "request ?B ?E no_options (Inr None) null_body =
     Inr \<lparr>success = False, data = None,
          error = Some (JStr (''Cannot read properties of null (reading '' @ [CHR 0x27] @ ''error'' @ [CHR 0x27] @ '')''))\<rparr>"
    by simp
  moreover from t [where fetch = offline] f(5)
  have "request ?B ?E no_options (Inr None) offline =
     Inr \<lparr>success = False, data = None, error = Some (JStr ''Failed to fetch'')\<rparr>"
    by simp
  moreover from t [where fetch = aborted] f(6)
  have "request ?B ?E no_options (Inr None) aborted =
     Inr \<lparr>success = False, data = None, error = Some (JStr ''Network error'')\<rparr>"
    by simp
  ultimately show ?thesis
    by blast
qed

text \<open>
  C9 as it is stated fails: for a response that is not ok and whose body has an object as
  its \<open>error\<close> member, the \<open>error\<close> of the result is that object, not a string.
\<close>

theorem error_is_not_always_string:
  "request ''http://localhost:8000/api/v1'' ''/profile'' no_options (Inr None) structured_error =
     Inr \<lparr>success = False, data = None, error = Some (JObj [(''code'', JStr ''E_DB'')])\<rparr>"
  by (simp add: request_def structured_error_def request_try_def ok_def Let_def)


subsection \<open>The report\<close>

lemma instructions_ends: "instructions \<noteq> []" "last instructions = CHR ''.''"
  by (simp_all add: instructions_def)

lemma summaryText_parts:
  "summaryText u p meds fname cs va now fmt =
     report_top u p fname now @ medications_block meds @ ''\<newline>\<newline>'' @
     vitals_block fmt va @ ''\<newline>\<newline>'' @ report_end cs"
proof -
  let ?s = "report_top u p fname now @ medications_block meds @ ''\<newline>\<newline>'' @
     vitals_block fmt va @ ''\<newline>\<newline>'' @ report_end cs"
  have body: "summaryText u p meds fname cs va now fmt = trim (''\<newline>'' @ ?s @ ''\<newline>    '')"
    by (simp add: summaryText_def report_top_def report_end_def)
  have "?s \<noteq> []" "hd ?s = CHR ''H''"
    by (simp_all add: report_top_def)
  moreover have "last ?s = CHR ''.''"
    using instructions_ends by (simp add: report_end_def)
  ultimately have "?s \<noteq> []" "\<forall>w \<in> set white_space. hd w \<noteq> hd ?s" "\<forall>w \<in> set white_space. last w \<noteq> last ?s"
    by (simp_all add: white_space_def)
  then have "\<forall>w \<in> set white_space. \<not> prefix w ?s" "\<forall>w \<in> set white_space. \<not> suffix w ?s" "?s \<noteq> []"
    using no_space_in_front [of ?s] no_space_at_end [of ?s] by blast+
  then have "trim (''\<newline>'' @ ?s @ ''\<newline>    '') = ?s"
    by (intro trim_framed) (simp_all add: ascii_space_def)
  with body show ?thesis by simp
qed


lemma entry_in_join: "x \<in> set xs \<Longrightarrow> sublist x (join sep xs)"
proof (induction sep xs rule: join.induct)
  case (1 sep)
  then show ?case by simp
next
  case (2 sep y)
  then show ?case by simp
next
  case (3 sep y z zs)
  show ?case
  proof (cases "x = y")
    case True
    then show ?thesis by simp
  next
    case False
    with 3 have "sublist x (join sep (z # zs))" by simp
    moreover have "sublist (join sep (z # zs)) (y @ sep @ join sep (z # zs))"
      by (metis append.assoc sublist_append_leftI)
    ultimately have "sublist x (y @ sep @ join sep (z # zs))"
      by (rule sublist_order.order_trans)
    then show ?thesis by simp
  qed
qed

lemma latest_vital:
  assumes "vs \<noteq> []"
  shows "\<exists>v \<in> set vs. (\<forall>w \<in> set vs. timestamp w \<le> timestamp v) \<and> Vital_find_latest vs = [v]"
proof -
  let ?s = "sort_key (\<lambda>v. - timestamp v) vs"
  from assms have "?s \<noteq> []"
    by (metis set_sort set_empty)
  then obtain v rest where s: "?s = v # rest"
    by (cases ?s) auto
  have "sorted (map (\<lambda>v. - timestamp v) ?s)"
    by (rule sorted_sort_key)
  with s have "\<forall>w \<in> set rest. timestamp w \<le> timestamp v"
    by simp
  moreover have "set vs = insert v (set rest)"
    by (metis s set_sort list.simps(15))
  ultimately have "v \<in> set vs" "\<forall>w \<in> set vs. timestamp w \<le> timestamp v"
    by auto
  moreover have "Vital_find_latest vs = [v]"
    by (simp add: Vital_find_latest_def s)
  ultimately show ?thesis by blast
qed

lemma in_report:
  "sublist (report_top u p fname now) (summaryText u p meds fname cs va now fmt)"
  "sublist (medications_block meds) (summaryText u p meds fname cs va now fmt)"
  "sublist (vitals_block fmt va) (summaryText u p meds fname cs va now fmt)"
  "sublist (report_end cs) (summaryText u p meds fname cs va now fmt)"
proof -
  show "sublist (report_top u p fname now) (summaryText u p meds fname cs va now fmt)"
    by (simp only: summaryText_parts sublist_append_rightI)
  show "sublist (medications_block meds) (summaryText u p meds fname cs va now fmt)"
    by (simp only: summaryText_parts sublist_appendI)
  have "summaryText u p meds fname cs va now fmt =
          (report_top u p fname now @ medications_block meds @ ''\<newline>\<newline>'') @ vitals_block fmt va @
          (''\<newline>\<newline>'' @ report_end cs)"
    by (simp add: summaryText_parts)
  then show "sublist (vitals_block fmt va) (summaryText u p meds fname cs va now fmt)"
    by (simp only: sublist_appendI)
  have "summaryText u p meds fname cs va now fmt =
          (report_top u p fname now @ medications_block meds @ ''\<newline>\<newline>'' @ vitals_block fmt va @
          ''\<newline>\<newline>'') @ report_end cs"
    by (simp add: summaryText_parts)
  then show "sublist (report_end cs) (summaryText u p meds fname cs va now fmt)"
    by (simp only: sublist_append_leftI)
qed

lemma newline_in_entry: "CHR ''\<newline>'' \<in> set (medication_entry med)"
  by (simp add: medication_entry_def)

lemma falsy_renders:
  "falsy_text x \<Longrightarrow> str_or x d = d"
  "falsy_number n \<Longrightarrow> num_or n d = d"
  "falsy_joined xs \<Longrightarrow> join_or xs '', '' d = d"
  by (auto simp: falsy_text_def falsy_number_def falsy_joined_def str_or_def num_or_def join_or_def
      number_truthy_def split: option.splits)

lemma in_top:
  assumes "report_top u p fname now = a @ x @ b"
  shows "sublist x (summaryText u p meds fname cs va now fmt)"
proof -
  have "sublist x (report_top u p fname now)"
    unfolding assms by (rule sublist_appendI)
  then show ?thesis
    using in_report(1) by (rule sublist_order.order_trans)
qed

lemma in_end:
  assumes "''\<newline>\<newline>'' @ report_end cs = a @ x @ b"
  shows "sublist x (summaryText u p meds fname cs va now fmt)"
proof -
  have "sublist x (''\<newline>\<newline>'' @ report_end cs)"
    unfolding assms by (rule sublist_appendI)
  moreover have "summaryText u p meds fname cs va now fmt =
      (report_top u p fname now @ medications_block meds @ ''\<newline>\<newline>'' @ vitals_block fmt va) @
      (''\<newline>\<newline>'' @ report_end cs)"
    by (simp add: summaryText_parts)
  then have "sublist (''\<newline>\<newline>'' @ report_end cs) (summaryText u p meds fname cs va now fmt)"
    by (simp only: sublist_append_leftI)
  ultimately show ?thesis
    by (rule sublist_order.order_trans)
qed

lemma headings_rendered:
  "sublist (''\<newline>\<newline>PERSONAL INFORMATION\<newline>------------------\<newline>'') (summaryText u p meds fname cs va now fmt)"
  "sublist (''\<newline>\<newline>MEDICAL INFORMATION\<newline>-----------------\<newline>'') (summaryText u p meds fname cs va now fmt)"
  "sublist (''\<newline>\<newline>CURRENT MEDICATIONS\<newline>-----------------\<newline>'') (summaryText u p meds fname cs va now fmt)"
  "sublist (''\<newline>\<newline>EMERGENCY CONTACTS\<newline>----------------\<newline>'') (summaryText u p meds fname cs va now fmt)"
  "sublist (''\<newline>\<newline>EMERGENCY INSTRUCTIONS\<newline>--------------------\<newline>'') (summaryText u p meds fname cs va now fmt)"
proof -
  show "sublist (''\<newline>\<newline>PERSONAL INFORMATION\<newline>------------------\<newline>'') (summaryText u p meds fname cs va now fmt)"
    by (rule in_top [where a = "''HEALTH SUMMARY REPORT\<newline>--------------------\<newline>Generated on: '' @ now"
          and b = "''Name: '' @ interp (user_name u) @ ''\<newline>Email: '' @ interp (user_email u) @
                   ''\<newline>Family Group: '' @ interp fname @ ''\<newline>'' @ personal_block p @
                   ''\<newline>\<newline>MEDICAL INFORMATION\<newline>-----------------\<newline>'' @ medical_block p @
                   ''\<newline>\<newline>CURRENT MEDICATIONS\<newline>-----------------\<newline>''"])
       (simp add: report_top_def)
  show "sublist (''\<newline>\<newline>MEDICAL INFORMATION\<newline>-----------------\<newline>'') (summaryText u p meds fname cs va now fmt)"
    by (rule in_top [where a = "''HEALTH SUMMARY REPORT\<newline>--------------------\<newline>Generated on: '' @ now @
                   ''\<newline>\<newline>PERSONAL INFORMATION\<newline>------------------\<newline>'' @
                   ''Name: '' @ interp (user_name u) @ ''\<newline>Email: '' @ interp (user_email u) @
                   ''\<newline>Family Group: '' @ interp fname @ ''\<newline>'' @ personal_block p"
          and b = "medical_block p @ ''\<newline>\<newline>CURRENT MEDICATIONS\<newline>-----------------\<newline>''"])
       (simp add: report_top_def)
  show "sublist (''\<newline>\<newline>CURRENT MEDICATIONS\<newline>-----------------\<newline>'') (summaryText u p meds fname cs va now fmt)"
    by (rule in_top [where a = "''HEALTH SUMMARY REPORT\<newline>--------------------\<newline>Generated on: '' @ now @
                   ''\<newline>\<newline>PERSONAL INFORMATION\<newline>------------------\<newline>'' @
                   ''Name: '' @ interp (user_name u) @ ''\<newline>Email: '' @ interp (user_email u) @
                   ''\<newline>Family Group: '' @ interp fname @ ''\<newline>'' @ personal_block p @
                   ''\<newline>\<newline>MEDICAL INFORMATION\<newline>-----------------\<newline>'' @ medical_block p"
          and b = "[]"])
       (simp add: report_top_def)
  show "sublist (''\<newline>\<newline>EMERGENCY CONTACTS\<newline>----------------\<newline>'') (summaryText u p meds fname cs va now fmt)"
    by (rule in_end [where a = "[]" and b = "contacts_block cs @ ''\<newline>\<newline>'' @ instructions"])
       (simp add: report_end_def)
  show "sublist (''\<newline>\<newline>EMERGENCY INSTRUCTIONS\<newline>--------------------\<newline>'') (summaryText u p meds fname cs va now fmt)"
    by (rule in_end [where a = "''\<newline>\<newline>EMERGENCY CONTACTS\<newline>----------------\<newline>'' @ contacts_block cs"
          and b = "''1. This is an automated health summary. Please contact emergency services if needed.\<newline>'' @
     ''2. Contact family doctor or nearest emergency room for medical assistance.\<newline>'' @
     ''3. Always verify medication information with healthcare provider.\<newline>'' @
     ''4. For immediate assistance, contact the primary emergency contact listed above.\<newline>'' @
     ''\<newline>'' @
     ''This is an automated emergency health summary. Please do not reply.''"])
       (simp add: report_end_def instructions_def)
qed

lemma in_personal:
  assumes "''\<newline>'' @ personal_block p @ ''\<newline>'' = a @ x @ b"
  shows "sublist x (summaryText u p meds fname cs va now fmt)"
proof -
  have "report_top u p fname now =
      (''HEALTH SUMMARY REPORT\<newline>--------------------\<newline>Generated on: '' @ now @
                   ''\<newline>\<newline>PERSONAL INFORMATION\<newline>------------------\<newline>'' @
                   ''Name: '' @ interp (user_name u) @ ''\<newline>Email: '' @ interp (user_email u) @
                   ''\<newline>Family Group: '' @ interp fname @ a) @ x @
      (b @ ''\<newline>MEDICAL INFORMATION\<newline>-----------------\<newline>'' @ medical_block p @
         ''\<newline>\<newline>CURRENT MEDICATIONS\<newline>-----------------\<newline>'')"
    using assms by (simp add: report_top_def)
  then show ?thesis by (rule in_top)
qed

lemma in_medical:
  assumes "''\<newline>'' @ medical_block p @ ''\<newline>'' = a @ x @ b"
  shows "sublist x (summaryText u p meds fname cs va now fmt)"
proof -
  have "report_top u p fname now =
      (''HEALTH SUMMARY REPORT\<newline>--------------------\<newline>Generated on: '' @ now @
                   ''\<newline>\<newline>PERSONAL INFORMATION\<newline>------------------\<newline>'' @
                   ''Name: '' @ interp (user_name u) @ ''\<newline>Email: '' @ interp (user_email u) @
                   ''\<newline>Family Group: '' @ interp fname @ ''\<newline>'' @ personal_block p @
                   ''\<newline>\<newline>MEDICAL INFORMATION\<newline>-----------------'' @ a) @ x @
      (b @ ''\<newline>CURRENT MEDICATIONS\<newline>-----------------\<newline>'')"
    using assms by (simp add: report_top_def)
  then show ?thesis by (rule in_top)
qed

lemma phone_in_entry:
  assumes "falsy_text (phone c)"
  shows "sublist (''\<newline>    Phone: Not provided\<newline>    Email: '' @ interp (contact_email c)) (contact_entry c)"
proof -
  have "contact_entry c = (''- '' @ interp (contact_name c) @ '' ('' @ interp (relation c) @ '')'') @
          (''\<newline>    Phone: Not provided\<newline>    Email: '' @ interp (contact_email c))"
    using assms by (simp add: contact_entry_def falsy_renders)
  then show ?thesis
    by (simp only: sublist_append_leftI)
qed

lemma entry_in_report:
  assumes "c \<in> set cs"
  shows "sublist (contact_entry c) (summaryText u p meds fname cs va now fmt)"
proof -
  from assms have "sublist (contact_entry c) (contacts_block cs)"
    by (simp add: contacts_block_def entry_in_join)
  moreover have "report_end cs = ''EMERGENCY CONTACTS\<newline>----------------\<newline>'' @ contacts_block cs @
      (''\<newline>\<newline>'' @ instructions)"
    by (simp add: report_end_def)
  then have "sublist (contacts_block cs) (report_end cs)"
    by (simp only: sublist_appendI)
  ultimately have "sublist (contact_entry c) (report_end cs)"
    by (rule sublist_order.order_trans)
  then show ?thesis
    using in_report(4) by (rule sublist_order.order_trans)
qed

text \<open>
  C8. With no medication, the report has the text \<open>No current medications\<close>: it is all
  there is between the heading of the medications and the blank line before the next
  block, and no itemised medication entry occurs in the medication block.
\<close>

theorem no_medications_placeholder:
  "summaryText u p [] fname cs va now fmt =
     report_top u p fname now @ ''No current medications\<newline>\<newline>'' @
     vitals_block fmt va @ ''\<newline>\<newline>'' @ report_end cs \<and>
   sublist ''No current medications'' (summaryText u p [] fname cs va now fmt) \<and>
   (\<forall>med. \<not> sublist (medication_entry med) (medications_block []))"
proof (intro conjI allI)
  show "summaryText u p [] fname cs va now fmt =
     report_top u p fname now @ ''No current medications\<newline>\<newline>'' @
     vitals_block fmt va @ ''\<newline>\<newline>'' @ report_end cs"
    by (simp add: summaryText_parts medications_block_def)
  have "medications_block [] = ''No current medications''"
    by (simp add: medications_block_def)
  with in_report(2) [of "[]" u p fname cs va now fmt]
  show "sublist ''No current medications'' (summaryText u p [] fname cs va now fmt)"
    by simp
  show "\<not> sublist (medication_entry med) (medications_block [])" for med
  proof
    assume "sublist (medication_entry med) (medications_block [])"
    then have "set (medication_entry med) \<subseteq> set (medications_block [])"
      by (rule set_mono_sublist)
    with newline_in_entry have "CHR ''\<newline>'' \<in> set (medications_block [])"
      by blast
    then show False
      by (simp add: medications_block_def)
  qed
qed

theorem no_medications_placeholder_witness:
  "sublist ''No current medications''
     (summaryText sample_user None [] (Some ''Rao'') [contact_of ''A'' (Some ''a@x.com'')] [] ''now'' short_date)"
  using no_medications_placeholder [where u = sample_user and p = None and fname = "Some ''Rao''"
      and cs = "[contact_of ''A'' (Some ''a@x.com'')]" and va = "[]" and now = "''now''" and fmt = short_date]
  by blast


lemma sublist_across_newline:
  assumes "CHR ''\<newline>'' \<notin> set h"
  shows "sublist h (a @ CHR ''\<newline>'' # b) \<longleftrightarrow> sublist h a \<or> sublist h b"
proof
  assume "sublist h (a @ CHR ''\<newline>'' # b)"
  then consider "sublist h a" | "sublist h (CHR ''\<newline>'' # b)"
    | xs1 xs2 where "h = xs1 @ xs2" "suffix xs1 a" "prefix xs2 (CHR ''\<newline>'' # b)"
    unfolding sublist_append by blast
  then show "sublist h a \<or> sublist h b"
  proof cases
    case 1
    then show ?thesis by simp
  next
    case 2
    then have "prefix h (CHR ''\<newline>'' # b) \<or> sublist h b"
      by (simp add: sublist_Cons_right)
    then show ?thesis
    proof
      assume "prefix h (CHR ''\<newline>'' # b)"
      with assms have "h = []"
        by (cases h) auto
      then show ?thesis by simp
    next
      assume "sublist h b"
      then show ?thesis by simp
    qed
  next
    case 3
    from 3(3) 3(1) assms have "xs2 = []"
      by (cases xs2) auto
    with 3(1,2) have "suffix h a"
      by simp
    then show ?thesis
      by (auto intro: suffix_imp_sublist)
  qed
next
  assume "sublist h a \<or> sublist h b"
  then show "sublist h (a @ CHR ''\<newline>'' # b)"
  proof
    assume "sublist h a"
    then show ?thesis by (simp add: sublist_append)
  next
    assume "sublist h b"
    then have "sublist h (CHR ''\<newline>'' # b)"
      by (simp add: sublist_Cons_right)
    then show ?thesis by (simp add: sublist_append)
  qed
qed

lemma heading_without_vitals:
  "sublist ''RECENT VITAL SIGNS'' (summaryText u p meds fname cs (Vital_find_latest []) now fmt) \<longleftrightarrow>
   sublist ''RECENT VITAL SIGNS'' (report_top u p fname now @ medications_block meds) \<or>
   sublist ''RECENT VITAL SIGNS'' (report_end cs)"
proof -
  have nl: "CHR ''\<newline>'' \<notin> set ''RECENT VITAL SIGNS''"
    by simp
  have skip: "sublist ''RECENT VITAL SIGNS'' (CHR ''\<newline>'' # b) \<longleftrightarrow> sublist ''RECENT VITAL SIGNS'' b" for b
    using sublist_across_newline [OF nl, of "[]" b] by simp
  have "summaryText u p meds fname cs (Vital_find_latest []) now fmt =
     (report_top u p fname now @ medications_block meds) @
       CHR ''\<newline>'' # (''\<newline>\<newline>\<newline>'' @ report_end cs)"
    by (simp add: summaryText_parts Vital_find_latest_def vitals_block_def)
  then have "sublist ''RECENT VITAL SIGNS'' (summaryText u p meds fname cs (Vital_find_latest []) now fmt) \<longleftrightarrow>
     sublist ''RECENT VITAL SIGNS'' (report_top u p fname now @ medications_block meds) \<or>
     sublist ''RECENT VITAL SIGNS'' (''\<newline>\<newline>\<newline>'' @ report_end cs)"
    by (simp only: sublist_across_newline [OF nl])
  then show ?thesis
    by (simp add: skip)
qed

text \<open>
  C7. With no vital record, the report has no vital-sign section at all: the medication
  block is followed by blank lines and the heading of the emergency contacts, and the
  words \<open>RECENT VITAL SIGNS\<close> occur in the report only where the records of the other
  sections spell them. With vital records, the section is rendered for a record of the
  latest time stamp, with its systolic and diastolic pressure, sugar, temperature and weight
  in the format of the template.
\<close>

theorem vital_signs_section:
  "summaryText u p meds fname cs (Vital_find_latest []) now fmt =
     report_top u p fname now @ medications_block meds @ ''\<newline>\<newline>\<newline>\<newline>'' @ report_end cs \<and>
   (sublist ''RECENT VITAL SIGNS'' (summaryText u p meds fname cs (Vital_find_latest []) now fmt) \<longleftrightarrow>
      sublist ''RECENT VITAL SIGNS'' (report_top u p fname now @ medications_block meds) \<or>
      sublist ''RECENT VITAL SIGNS'' (report_end cs)) \<and>
   (vs \<noteq> [] \<longrightarrow>
      (\<exists>v \<in> set vs. (\<forall>w \<in> set vs. timestamp w \<le> timestamp v) \<and>
         sublist (''\<newline>\<newline>\<newline>RECENT VITAL SIGNS\<newline>'' @
                  ''----------------\<newline>'' @
                  ''Blood Pressure: '' @ interp (bp_systolic v) @ ''/'' @ interp (bp_diastolic v) @ '' mmHg\<newline>'' @
                  ''Blood Sugar: '' @ interp (sugar v) @ '' mg/dL\<newline>'' @
                  ''Temperature: '' @ interp (temperature v) @ degree_sign @ ''F\<newline>'' @
                  ''Weight: '' @ interp (weight v) @ '' kg\<newline>'' @
                  ''Recorded on: '' @ fmt (timestamp v) @ ''\<newline>\<newline>EMERGENCY CONTACTS\<newline>'')
           (summaryText u p meds fname cs (Vital_find_latest vs) now fmt)))"
proof (intro conjI impI)
  show "summaryText u p meds fname cs (Vital_find_latest []) now fmt =
     report_top u p fname now @ medications_block meds @ ''\<newline>\<newline>\<newline>\<newline>'' @ report_end cs"
    by (simp add: summaryText_parts Vital_find_latest_def vitals_block_def)
next
  show "sublist ''RECENT VITAL SIGNS'' (summaryText u p meds fname cs (Vital_find_latest []) now fmt) \<longleftrightarrow>
      sublist ''RECENT VITAL SIGNS'' (report_top u p fname now @ medications_block meds) \<or>
      sublist ''RECENT VITAL SIGNS'' (report_end cs)"
    by (rule heading_without_vitals)
next
  assume "vs \<noteq> []"
  then obtain v where v: "v \<in> set vs" "\<forall>w \<in> set vs. timestamp w \<le> timestamp v" "Vital_find_latest vs = [v]"
    using latest_vital by blast
  let ?lines = "''\<newline>\<newline>\<newline>RECENT VITAL SIGNS\<newline>'' @
                  ''----------------\<newline>'' @
                  ''Blood Pressure: '' @ interp (bp_systolic v) @ ''/'' @ interp (bp_diastolic v) @ '' mmHg\<newline>'' @
                  ''Blood Sugar: '' @ interp (sugar v) @ '' mg/dL\<newline>'' @
                  ''Temperature: '' @ interp (temperature v) @ degree_sign @ ''F\<newline>'' @
                  ''Weight: '' @ interp (weight v) @ '' kg\<newline>'' @
                  ''Recorded on: '' @ fmt (timestamp v) @ ''\<newline>\<newline>EMERGENCY CONTACTS\<newline>''"
  have "summaryText u p meds fname cs (Vital_find_latest vs) now fmt =
          (report_top u p fname now @ medications_block meds) @ ?lines @
          (''----------------\<newline>'' @ contacts_block cs @ ''\<newline>\<newline>'' @ instructions)"
    by (simp add: summaryText_parts v(3) vitals_block_def report_end_def)
  then have "sublist ?lines (summaryText u p meds fname cs (Vital_find_latest vs) now fmt)"
    by (simp only: sublist_appendI)
  with v(1,2) show "\<exists>v \<in> set vs. (\<forall>w \<in> set vs. timestamp w \<le> timestamp v) \<and>
         sublist (''\<newline>\<newline>\<newline>RECENT VITAL SIGNS\<newline>'' @
                  ''----------------\<newline>'' @
                  ''Blood Pressure: '' @ interp (bp_systolic v) @ ''/'' @ interp (bp_diastolic v) @ '' mmHg\<newline>'' @
                  ''Blood Sugar: '' @ interp (sugar v) @ '' mg/dL\<newline>'' @
                  ''Temperature: '' @ interp (temperature v) @ degree_sign @ ''F\<newline>'' @
                  ''Weight: '' @ interp (weight v) @ '' kg\<newline>'' @
                  ''Recorded on: '' @ fmt (timestamp v) @ ''\<newline>\<newline>EMERGENCY CONTACTS\<newline>'')
           (summaryText u p meds fname cs (Vital_find_latest vs) now fmt)"
    by blast
qed

theorem vital_signs_section_witness:
  "[older_vital, newer_vital] \<noteq> [] \<and>
   sublist (''\<newline>\<newline>\<newline>RECENT VITAL SIGNS\<newline>'' @
            ''----------------\<newline>'' @
            ''Blood Pressure: 120/80 mmHg\<newline>'' @
            ''Blood Sugar: 95 mg/dL\<newline>'' @
            ''Temperature: 98.6'' @ degree_sign @ ''F\<newline>'' @
            ''Weight: 70 kg\<newline>'' @
            ''Recorded on: 2/11/2026, 10:00:00\<newline>\<newline>EMERGENCY CONTACTS\<newline>'')
     (summaryText sample_user None [] (Some ''Rao'') [contact_of ''A'' (Some ''a@x.com'')]
        (Vital_find_latest [older_vital, newer_vital]) ''now'' short_date) \<and>
   \<not> sublist ''RECENT VITAL SIGNS''
     (summaryText sample_user None [] (Some ''Rao'') [contact_of ''A'' (Some ''a@x.com'')]
        (Vital_find_latest []) ''now'' short_date)"
proof -
  have ts: "timestamp older_vital = 1000" "timestamp newer_vital = 2000"
    by (simp_all add: older_vital_def newer_vital_def)
  have nv: "interp (bp_systolic newer_vital) = ''120''" "interp (bp_diastolic newer_vital) = ''80''"
    "interp (sugar newer_vital) = ''95''" "interp (temperature newer_vital) = ''98.6''"
    "interp (weight newer_vital) = ''70''"
    by (simp_all add: newer_vital_def interp_def)
  have top: "\<not> sublist ''RECENT VITAL SIGNS'' (report_top sample_user None (Some ''Rao'') ''now'' @ medications_block [])"
    by (simp add: report_top_def medications_block_def personal_block_def medical_block_def
        sample_user_def interp_def str_or_def sublist_Cons_right)
  have bottom: "\<not> sublist ''RECENT VITAL SIGNS'' (report_end [contact_of ''A'' (Some ''a@x.com'')])"
    by (simp add: report_end_def contacts_block_def contact_entry_def instructions_def
        contact_of_def interp_def str_or_def sublist_Cons_right)
  note t = vital_signs_section [where vs = "[older_vital, newer_vital]" and u = sample_user and p = None
        and meds = "[]" and fname = "Some ''Rao''" and cs = "[contact_of ''A'' (Some ''a@x.com'')]"
        and now = "''now''" and fmt = short_date]
  from t top bottom have "\<not> sublist ''RECENT VITAL SIGNS''
     (summaryText sample_user None [] (Some ''Rao'') [contact_of ''A'' (Some ''a@x.com'')]
        (Vital_find_latest []) ''now'' short_date)"
    by blast
  moreover from t have "sublist (''\<newline>\<newline>\<newline>RECENT VITAL SIGNS\<newline>'' @
            ''----------------\<newline>'' @
            ''Blood Pressure: 120/80 mmHg\<newline>'' @
            ''Blood Sugar: 95 mg/dL\<newline>'' @
            ''Temperature: 98.6'' @ degree_sign @ ''F\<newline>'' @
            ''Weight: 70 kg\<newline>'' @
            ''Recorded on: 2/11/2026, 10:00:00\<newline>\<newline>EMERGENCY CONTACTS\<newline>'')
     (summaryText sample_user None [] (Some ''Rao'') [contact_of ''A'' (Some ''a@x.com'')]
        (Vital_find_latest [older_vital, newer_vital]) ''now'' short_date)"
    by (simp add: ts nv short_date_def)
  ultimately show ?thesis
    by simp
qed

text \<open>
  C6, as the code has it. Every section heading is rendered whatever is missing. With a
  profile, a missing blood group, age or gender renders \<open>Not Provided\<close>, missing or
  empty allergies and existing conditions render \<open>None reported\<close>, a missing doctor
  address \<open>None registered\<close>; without a profile one line stands for the personal and one
  for the medical fields; a contact's missing phone number renders \<open>Not provided\<close>.
  Nothing is said of the other fields, which the template interpolates as they are.
\<close>

theorem placeholders_rendered:
  "sublist ''\<newline>\<newline>PERSONAL INFORMATION\<newline>------------------\<newline>'' (summaryText u p meds fname cs va now fmt) \<and>
   sublist ''\<newline>\<newline>MEDICAL INFORMATION\<newline>-----------------\<newline>'' (summaryText u p meds fname cs va now fmt) \<and>
   sublist ''\<newline>\<newline>CURRENT MEDICATIONS\<newline>-----------------\<newline>'' (summaryText u p meds fname cs va now fmt) \<and>
   sublist ''\<newline>\<newline>EMERGENCY CONTACTS\<newline>----------------\<newline>'' (summaryText u p meds fname cs va now fmt) \<and>
   sublist ''\<newline>\<newline>EMERGENCY INSTRUCTIONS\<newline>--------------------\<newline>'' (summaryText u p meds fname cs va now fmt) \<and>
   (p = None \<longrightarrow>
      sublist ''\<newline>No profile information available\<newline>'' (summaryText u p meds fname cs va now fmt) \<and>
      sublist ''\<newline>No medical information available\<newline>'' (summaryText u p meds fname cs va now fmt)) \<and>
   (\<forall>q. p = Some q \<longrightarrow>
      (falsy_text (blood_group q) \<longrightarrow>
         sublist ''\<newline>Blood Group: Not Provided\<newline>'' (summaryText u p meds fname cs va now fmt)) \<and>
      (falsy_number (age q) \<longrightarrow>
         sublist ''\<newline>Age: Not Provided\<newline>'' (summaryText u p meds fname cs va now fmt)) \<and>
      (falsy_text (gender q) \<longrightarrow>
         sublist ''\<newline>Gender: Not Provided\<newline>'' (summaryText u p meds fname cs va now fmt)) \<and>
      (falsy_joined (allergies q) \<longrightarrow>
         sublist ''\<newline>Allergies: None reported\<newline>'' (summaryText u p meds fname cs va now fmt)) \<and>
      (falsy_joined (existing_conditions q) \<longrightarrow>
         sublist ''\<newline>Existing Conditions: None reported\<newline>'' (summaryText u p meds fname cs va now fmt)) \<and>
      (falsy_joined (family_doctor_email q) \<longrightarrow>
         sublist ''\<newline>Family Doctor Email: None registered\<newline>'' (summaryText u p meds fname cs va now fmt))) \<and>
   (\<forall>c \<in> set cs. falsy_text (phone c) \<longrightarrow>
      sublist (''\<newline>    Phone: Not provided\<newline>    Email: '' @ interp (contact_email c))
        (summaryText u p meds fname cs va now fmt))"
proof -
  let ?out = "summaryText u p meds fname cs va now fmt"
  have absent: "sublist ''\<newline>No profile information available\<newline>'' ?out"
      "sublist ''\<newline>No medical information available\<newline>'' ?out" if "p = None"
  proof -
    show "sublist ''\<newline>No profile information available\<newline>'' ?out"
      by (rule in_personal [where a = "[]" and b = "[]"]) (simp add: that personal_block_def)
    show "sublist ''\<newline>No medical information available\<newline>'' ?out"
      by (rule in_medical [where a = "[]" and b = "[]"]) (simp add: that medical_block_def)
  qed
  have blood: "sublist ''\<newline>Blood Group: Not Provided\<newline>'' ?out"
    if "p = Some q" "falsy_text (blood_group q)" for q
    by (rule in_personal [where a = "[]" and b = "''Age: '' @ num_or (age q) ''Not Provided'' @
          ''\<newline>Gender: '' @ str_or (gender q) ''Not Provided'' @ ''\<newline>''"])
       (simp add: that personal_block_def falsy_renders)
  have age: "sublist ''\<newline>Age: Not Provided\<newline>'' ?out"
    if "p = Some q" "falsy_number (age q)" for q
    by (rule in_personal [where a = "''\<newline>Blood Group: '' @ str_or (blood_group q) ''Not Provided''"
          and b = "''Gender: '' @ str_or (gender q) ''Not Provided'' @ ''\<newline>''"])
       (simp add: that personal_block_def falsy_renders)
  have gender: "sublist ''\<newline>Gender: Not Provided\<newline>'' ?out"
    if "p = Some q" "falsy_text (gender q)" for q
    by (rule in_personal [where a = "''\<newline>Blood Group: '' @ str_or (blood_group q) ''Not Provided'' @
          ''\<newline>Age: '' @ num_or (age q) ''Not Provided''" and b = "[]"])
       (simp add: that personal_block_def falsy_renders)
  have allergies: "sublist ''\<newline>Allergies: None reported\<newline>'' ?out"
    if "p = Some q" "falsy_joined (allergies q)" for q
    by (rule in_medical [where a = "[]" and b = "''Existing Conditions: '' @
          join_or (existing_conditions q) '', '' ''None reported'' @
          ''\<newline>Family Doctor Email: '' @ join_or (family_doctor_email q) '', '' ''None registered'' @ ''\<newline>''"])
       (simp add: that medical_block_def falsy_renders)
  have conditions: "sublist ''\<newline>Existing Conditions: None reported\<newline>'' ?out"
    if "p = Some q" "falsy_joined (existing_conditions q)" for q
    by (rule in_medical [where a = "''\<newline>Allergies: '' @ join_or (allergies q) '', '' ''None reported''"
          and b = "''Family Doctor Email: '' @ join_or (family_doctor_email q) '', '' ''None registered'' @ ''\<newline>''"])
       (simp add: that medical_block_def falsy_renders)
  have doctor: "sublist ''\<newline>Family Doctor Email: None registered\<newline>'' ?out"
    if "p = Some q" "falsy_joined (family_doctor_email q)" for q
    by (rule in_medical [where a = "''\<newline>Allergies: '' @ join_or (allergies q) '', '' ''None reported'' @
          ''\<newline>Existing Conditions: '' @ join_or (existing_conditions q) '', '' ''None reported''" and b = "[]"])
       (simp add: that medical_block_def falsy_renders)
  have phone: "sublist (''\<newline>    Phone: Not provided\<newline>    Email: '' @ interp (contact_email c)) ?out"
    if "c \<in> set cs" "falsy_text (phone c)" for c
    using phone_in_entry [OF that(2)] entry_in_report [OF that(1)]
    by (rule sublist_order.order_trans)
  show ?thesis
    using headings_rendered [of u p meds fname cs va now fmt] absent blood age gender allergies conditions doctor phone
    by blast
qed

theorem placeholders_rendered_witness:
  "falsy_text (blood_group bare_profile) \<and> falsy_number (age bare_profile) \<and>
   falsy_joined (allergies bare_profile) \<and> falsy_joined (family_doctor_email bare_profile) \<and>
   falsy_text (phone (contact_of ''A'' (Some ''a@x.com''))) \<and>
   sublist ''\<newline>Blood Group: Not Provided\<newline>''
     (summaryText sample_user (Some bare_profile) [] (Some ''Rao'') [contact_of ''A'' (Some ''a@x.com'')] [] ''now'' short_date) \<and>
   sublist ''\<newline>Age: Not Provided\<newline>''
     (summaryText sample_user (Some bare_profile) [] (Some ''Rao'') [contact_of ''A'' (Some ''a@x.com'')] [] ''now'' short_date) \<and>
   sublist ''\<newline>Allergies: None reported\<newline>''
     (summaryText sample_user (Some bare_profile) [] (Some ''Rao'') [contact_of ''A'' (Some ''a@x.com'')] [] ''now'' short_date) \<and>
   sublist ''\<newline>Family Doctor Email: None registered\<newline>''
     (summaryText sample_user (Some bare_profile) [] (Some ''Rao'') [contact_of ''A'' (Some ''a@x.com'')] [] ''now'' short_date) \<and>
   sublist ''\<newline>    Phone: Not provided\<newline>    Email: a@x.com''
     (summaryText sample_user (Some bare_profile) [] (Some ''Rao'') [contact_of ''A'' (Some ''a@x.com'')] [] ''now'' short_date)"
proof -
  have h: "falsy_text (blood_group bare_profile)" "falsy_number (age bare_profile)"
    "falsy_joined (allergies bare_profile)" "falsy_joined (family_doctor_email bare_profile)"
    "falsy_text (phone (contact_of ''A'' (Some ''a@x.com'')))"
    by (simp_all add: bare_profile_def contact_of_def falsy_text_def falsy_number_def falsy_joined_def)
  have e: "interp (contact_email (contact_of ''A'' (Some ''a@x.com''))) = ''a@x.com''"
    by (simp add: contact_of_def interp_def)
  show ?thesis
    using placeholders_rendered [where u = sample_user and p = "Some bare_profile" and meds = "[]"
        and fname = "Some ''Rao''" and cs = "[contact_of ''A'' (Some ''a@x.com'')]" and va = "[]"
        and now = "''now''" and fmt = short_date] h
    by (simp add: e)
qed

text \<open>
  C6 as it is stated fails: a contact without an e-mail address is rendered with the word
  \<open>undefined\<close> where the address would be, next to the placeholder of its phone number.
\<close>

theorem missing_contact_email_rendered_undefined:
  "sublist ''- U (friend)\<newline>    Phone: Not provided\<newline>    Email: undefined''
     (summaryText sample_user None [] (Some ''Rao'')
        [contact_of ''A'' (Some ''a@x.com''), contact_of ''U'' None] [] ''now'' short_date)"
proof -
  have "contact_entry (contact_of ''U'' None) = ''- U (friend)\<newline>    Phone: Not provided\<newline>    Email: undefined''"
    by (simp add: contact_entry_def contact_of_def interp_def str_or_def)
  moreover have "contact_of ''U'' None \<in> set [contact_of ''A'' (Some ''a@x.com''), contact_of ''U'' None]"
    by simp
  ultimately show ?thesis
    using entry_in_report by metis
qed


end
